theory Spec2Isabelle
  imports Main
begin

section \<open>The NumPy-compatible namespace of \<open>tensorflow/python/ops/numpy_ops/__init__.py\<close>\<close>

text \<open>
  The module imports names from its sibling modules and defines three alias functions:
  \<^verbatim>\<open>
  @np_utils.np_doc("max", link=np_utils.AliasOf("maximum"))
  def max(a, axis=None, keepdims=None):
    return amax(a, axis=axis, keepdims=keepdims)

  @np_utils.np_doc("min", link=np_utils.AliasOf("minimum"))
  def min(a, axis=None, keepdims=None):
    return amin(a, axis=axis, keepdims=keepdims)

  @np_utils.np_doc("round", link=np_utils.AliasOf("around"))
  def round(a, decimals=0):
    return around(a, decimals=decimals)
  \<close>
  The functions \<open>amax\<close>, \<open>amin\<close> and \<open>around\<close> come from the wildcard imports and are
  defined in the sibling modules; here they are parameters of the model.
\<close>

subsection \<open>Values, exceptions and calls\<close>

text \<open>
  Python values as far as the aliases look at them: \<open>None\<close> and \<open>0\<close> are the defaults
  of the signatures; arrays, tensors and every other object are opaque references.
\<close>

datatype pyval =
    PyNone
  | PyBool bool
  | PyInt int
  | PyStr string
  | PySeq "pyval list"
  | PyRef nat

datatype exc =
    TypeError
  | ValueError
  | NameError
  | AttributeError
  | ImportError
  | OtherError string

text \<open>
  A call site \<open>f(v1, ..., vn, k1=w1, ..., km=wm)\<close>: the positional arguments in order and
  the keyword arguments as written.
\<close>

record call =
  args :: "pyval list"
  kwargs :: "(string \<times> pyval) list"

text \<open>
  A callable: it takes the call and the state of the program, and returns the value or
  the exception raised, with the state it leaves behind.
\<close>

type_synonym 's pyfun = "call \<Rightarrow> 's \<Rightarrow> (exc + pyval) \<times> 's"

subsection \<open>Binding the arguments of a call to a signature\<close>

text \<open>
  A parameter of a \<open>def\<close> is its name and its default, if it has one. Python binds the
  positional arguments to the parameters from the left, then the keyword arguments by
  name, then the defaults; it raises \<open>TypeError\<close> when there are more positional
  arguments than parameters, when a keyword names no parameter or one that is bound
  already, and when a parameter without default is left unbound.
\<close>

type_synonym param = "string \<times> pyval option"

definition bind_args :: "param list \<Rightarrow> call \<Rightarrow> exc + (string \<rightharpoonup> pyval)" where
  "bind_args ps c =
     (let n = length (args c);
          kws = map fst (kwargs c);
          rest = drop n ps
      in if length ps < n then Inl TypeError
         else if \<not> distinct kws then Inl TypeError
         else if list_ex (\<lambda>k. k \<notin> set (map fst rest)) kws then Inl TypeError
         else if list_ex (\<lambda>(p, d). d = None \<and> p \<notin> set kws) rest then Inl TypeError
         else Inr (map_of (zip (map fst ps) (args c) @ kwargs c
                           @ concat (map (\<lambda>(p, d). case d of None \<Rightarrow> [] | Some v \<Rightarrow> [(p, v)]) rest))))"

subsection \<open>The decorator\<close>

datatype link = AliasOf string

definition np_doc :: "string \<Rightarrow> link \<Rightarrow> 's pyfun \<Rightarrow> 's pyfun" where
  \<comment> \<open>Modelled from the spec: \<open>np_utils.np_doc\<close> is defined in the sibling module
      \<open>np_utils\<close>. By section 4.1 of the specification no validation, error translation
      or side effect is added to the alias functions: the decorator attaches the
      documentation of the NumPy function and leaves the behaviour of the function as
      it is.\<close>
  "np_doc np_fun_name lnk f = f"

subsection \<open>The alias functions\<close>

definition max_alias :: "'s pyfun \<Rightarrow> 's pyfun" where
  "max_alias amax =
     np_doc ''max'' (AliasOf ''maximum'')
       (\<lambda>c s.
          case bind_args [(''a'', None), (''axis'', Some PyNone), (''keepdims'', Some PyNone)] c of
            Inl e \<Rightarrow> (Inl e, s)
          | Inr env \<Rightarrow>
              (case (env ''a'', env ''axis'', env ''keepdims'') of
                 (Some a, Some axis, Some keepdims) \<Rightarrow>
                   amax \<lparr>args = [a], kwargs = [(''axis'', axis), (''keepdims'', keepdims)]\<rparr> s
               | _ \<Rightarrow> (Inl NameError, s)))"

definition min_alias :: "'s pyfun \<Rightarrow> 's pyfun" where
  "min_alias amin =
     np_doc ''min'' (AliasOf ''minimum'')
       (\<lambda>c s.
          case bind_args [(''a'', None), (''axis'', Some PyNone), (''keepdims'', Some PyNone)] c of
            Inl e \<Rightarrow> (Inl e, s)
          | Inr env \<Rightarrow>
              (case (env ''a'', env ''axis'', env ''keepdims'') of
                 (Some a, Some axis, Some keepdims) \<Rightarrow>
                   amin \<lparr>args = [a], kwargs = [(''axis'', axis), (''keepdims'', keepdims)]\<rparr> s
               | _ \<Rightarrow> (Inl NameError, s)))"

definition round_alias :: "'s pyfun \<Rightarrow> 's pyfun" where
  "round_alias around =
     np_doc ''round'' (AliasOf ''around'')
       (\<lambda>c s.
          case bind_args [(''a'', None), (''decimals'', Some (PyInt 0))] c of
            Inl e \<Rightarrow> (Inl e, s)
          | Inr env \<Rightarrow>
              (case (env ''a'', env ''decimals'') of
                 (Some a, Some decimals) \<Rightarrow>
                   around \<lparr>args = [a], kwargs = [(''decimals'', decimals)]\<rparr> s
               | _ \<Rightarrow> (Inl NameError, s)))"

text \<open>
  How a call site supplies the values \<open>bs\<close> of parameters: the first \<open>n\<close> of them
  positionally, in the order of the signature, and the others by keyword, each once,
  in any order.
\<close>

definition supplies :: "call \<Rightarrow> (string \<times> pyval) list \<Rightarrow> bool" where
  "supplies c bs \<longleftrightarrow>
     list_ex (\<lambda>n. args c = map snd (take n bs) \<and> distinct (map fst (kwargs c))
                  \<and> set (kwargs c) = set (drop n bs)) [0..<Suc (length bs)]"

subsection \<open>Modules and the namespace of the package\<close>

text \<open>
  The statements of the file, run in order when the package is imported:
  \<^verbatim>\<open>
  from __future__ import absolute_import
  from __future__ import division
  from __future__ import print_function

  from tensorflow.python.ops.array_ops import newaxis
  from tensorflow.python.ops.numpy_ops import np_random as random
  from tensorflow.python.ops.numpy_ops import np_utils
  from tensorflow.python.ops.numpy_ops.np_array_ops import *
  from tensorflow.python.ops.numpy_ops.np_arrays import ndarray
  from tensorflow.python.ops.numpy_ops.np_dtypes import *
  from tensorflow.python.ops.numpy_ops.np_math_ops import *
  from tensorflow.python.ops.numpy_ops.np_utils import finfo
  from tensorflow.python.ops.numpy_ops.np_utils import promote_types
  from tensorflow.python.ops.numpy_ops.np_utils import result_type
  \<close>
  followed by the three decorated \<open>def\<close>s. An object is known by its identity: a
  module by its dotted name, a function that this file defines by its name, any other
  object by a reference, together with the kind of thing it is.

  The modules that the file imports from are given by the \<open>world\<close>: what each of them
  binds, its \<open>__all__\<close> when it has one, and the submodules of the package that its
  import brings in. When Python loads a submodule \<open>pkg.x\<close> it binds the name \<open>x\<close> in
  the namespace of the package \<open>pkg\<close>, at the moment the submodule has finished
  loading, and only the first time. So the namespace of the package receives, besides
  the names that the statements bind, one name for each submodule that is loaded while
  the statements run.

  The namespace below is what the file's statements and these loads build. The
  attributes that every module carries from its creation (\<open>__name__\<close>, \<open>__doc__\<close>,
  \<open>__file__\<close>, \<open>__path__\<close> and the like) are not counted among the names.
\<close>

datatype kind =
    ArrayFunction
  | DType
  | MathOperation
  | UtilityFunction
  | Class
  | Constant
  | Feature

datatype pyobj =
    Module string
  | Obj kind nat
  | Function string

text \<open>
  \<open>loads\<close>: the submodules of the package \<open>numpy_ops\<close>, by their short names, that the
  first import of the module brings in before the module itself is ready (what it
  imports itself, and what those import), in the order in which they finish loading.
\<close>

record pymodule =
  attrs :: "(string \<times> pyobj) list"
  dunder_all :: "string list option"
  loads :: "string list"

type_synonym world = "string \<Rightarrow> pymodule option"

type_synonym namespace = "string \<rightharpoonup> pyobj"

text \<open>
  The package while its \<open>__init__\<close> runs: its namespace, and the short names of its
  submodules that are loaded.
\<close>

record package =
  globals :: namespace
  loaded :: "string set"

definition then_do :: "exc + 'a \<Rightarrow> ('a \<Rightarrow> exc + 'b) \<Rightarrow> exc + 'b" where
  "then_do r f = (case r of Inl e \<Rightarrow> Inl e | Inr x \<Rightarrow> f x)"

definition numpy_ops :: string where
  "numpy_ops = ''tensorflow.python.ops.numpy_ops''"

definition submodule :: "string \<Rightarrow> string" where
  "submodule x = numpy_ops @ ''.'' @ x"

definition module_attr :: "world \<Rightarrow> string \<Rightarrow> string \<Rightarrow> pyobj option" where
  \<comment> \<open>\<open>getattr(m, x)\<close> on an imported module\<close>
  "module_attr w m x = (case w m of None \<Rightarrow> None | Some md \<Rightarrow> map_of (attrs md) x)"

definition load_child :: "world \<Rightarrow> string \<Rightarrow> package \<Rightarrow> exc + package" where
  \<comment> \<open>the submodule \<open>x\<close> finishes loading: unless it was loaded before, its name is
      bound in the package\<close>
  "load_child w x st =
     (if x \<in> loaded st then Inr st
      else case w (submodule x) of
             None \<Rightarrow> Inl ImportError
           | Some md \<Rightarrow>
               Inr (st\<lparr>globals := (globals st)(x \<mapsto> Module (submodule x)),
                       loaded := insert x (loaded st)\<rparr>))"

fun load_children :: "world \<Rightarrow> string list \<Rightarrow> package \<Rightarrow> exc + package" where
  "load_children w [] st = Inr st"
| "load_children w (x # xs) st = then_do (load_child w x st) (load_children w xs)"

definition import_module :: "world \<Rightarrow> string \<Rightarrow> package \<Rightarrow> exc + package" where
  \<comment> \<open>the import of a module \<open>m\<close> outside the package\<close>
  "import_module w m st =
     (case w m of
        None \<Rightarrow> Inl ImportError
      | Some md \<Rightarrow> load_children w (loads md) st)"

definition import_child :: "world \<Rightarrow> string \<Rightarrow> package \<Rightarrow> exc + package" where
  \<comment> \<open>the import of the submodule \<open>x\<close> of the package\<close>
  "import_child w x st =
     (case w (submodule x) of
        None \<Rightarrow> Inl ImportError
      | Some md \<Rightarrow>
          if x \<in> loaded st then Inr st
          else then_do (load_children w (loads md) st) (load_child w x))"

definition bind_attr :: "world \<Rightarrow> string \<Rightarrow> string \<Rightarrow> string \<Rightarrow> package \<Rightarrow> exc + package" where
  \<comment> \<open>bind \<open>y\<close> to the attribute \<open>x\<close> of the module \<open>m\<close>\<close>
  "bind_attr w m x y st =
     (case module_attr w m x of
        None \<Rightarrow> Inl ImportError
      | Some v \<Rightarrow> Inr (st\<lparr>globals := (globals st)(y \<mapsto> v)\<rparr>))"

definition from_import :: "world \<Rightarrow> string \<Rightarrow> string \<Rightarrow> string \<Rightarrow> package \<Rightarrow> exc + package" where
  \<comment> \<open>\<open>from m import x as y\<close>, for a module \<open>m\<close> outside the package\<close>
  "from_import w m x y st = then_do (import_module w m st) (bind_attr w m x y)"

definition from_child_import :: "world \<Rightarrow> string \<Rightarrow> string \<Rightarrow> string \<Rightarrow> package \<Rightarrow> exc + package" where
  \<comment> \<open>\<open>from pkg.c import x as y\<close>, for a submodule \<open>c\<close> of the package\<close>
  "from_child_import w c x y st = then_do (import_child w c st) (bind_attr w (submodule c) x y)"

definition import_submodule :: "world \<Rightarrow> string \<Rightarrow> string \<Rightarrow> package \<Rightarrow> exc + package" where
  \<comment> \<open>\<open>from pkg import x as y\<close> in the \<open>__init__\<close> of \<open>pkg\<close> itself: when the package has
      no attribute \<open>x\<close> yet, the submodule \<open>pkg.x\<close> is imported; then \<open>y\<close> is bound to the
      attribute \<open>x\<close> of the package, or to the loaded submodule when there is none.\<close>
  "import_submodule w x y st =
     (case globals st x of
        Some v \<Rightarrow> Inr (st\<lparr>globals := (globals st)(y \<mapsto> v)\<rparr>)
      | None \<Rightarrow>
          then_do (import_child w x st)
            (\<lambda>st'. Inr (st'\<lparr>globals := (globals st')
                       (y \<mapsto> (case globals st' x of Some v \<Rightarrow> v | None \<Rightarrow> Module (submodule x)))\<rparr>)))"

definition is_private :: "string \<Rightarrow> bool" where
  "is_private n = (case n of [] \<Rightarrow> False | ch # _ \<Rightarrow> ch = CHR ''_'')"

definition public_names :: "pymodule \<Rightarrow> string list" where
  \<comment> \<open>what \<open>import *\<close> takes: \<open>__all__\<close>, or every name without a leading underscore\<close>
  "public_names md =
     (case dunder_all md of
        Some names \<Rightarrow> names
      | None \<Rightarrow> filter (\<lambda>n. \<not> is_private n) (map fst (attrs md)))"

fun bind_names :: "pymodule \<Rightarrow> string list \<Rightarrow> package \<Rightarrow> exc + package" where
  "bind_names md [] st = Inr st"
| "bind_names md (x # xs) st =
     (case map_of (attrs md) x of
        None \<Rightarrow> Inl AttributeError
      | Some v \<Rightarrow> bind_names md xs (st\<lparr>globals := (globals st)(x \<mapsto> v)\<rparr>))"

definition import_star :: "world \<Rightarrow> string \<Rightarrow> package \<Rightarrow> exc + package" where
  \<comment> \<open>\<open>from pkg.c import *\<close>, for a submodule \<open>c\<close> of the package\<close>
  "import_star w c st =
     then_do (import_child w c st)
       (\<lambda>st'. case w (submodule c) of
                 None \<Rightarrow> Inl ImportError
               | Some md \<Rightarrow> bind_names md (public_names md) st')"

definition star_names :: "world \<Rightarrow> string \<Rightarrow> string set" where
  "star_names w c = (case w (submodule c) of None \<Rightarrow> {} | Some md \<Rightarrow> set (public_names md))"

definition def_alias :: "world \<Rightarrow> string \<Rightarrow> package \<Rightarrow> exc + package" where
  \<comment> \<open>\<open>@np_utils.np_doc(..., link=np_utils.AliasOf(...)) def name(...)\<close>: the decorator
      expression looks \<open>np_utils\<close> up in the namespace and takes its attributes
      \<open>np_doc\<close> and \<open>AliasOf\<close>; the name is bound to the function that the file defines
      (see \<open>np_doc\<close> above).\<close>
  "def_alias w name st =
     (case globals st ''np_utils'' of
        None \<Rightarrow> Inl NameError
      | Some (Module m) \<Rightarrow>
          (case (module_attr w m ''np_doc'', module_attr w m ''AliasOf'') of
             (Some _, Some _) \<Rightarrow> Inr (st\<lparr>globals := (globals st)(name \<mapsto> Function name)\<rparr>)
           | _ \<Rightarrow> Inl AttributeError)
      | Some _ \<Rightarrow> Inl AttributeError)"

definition numpy_ops_init :: "world \<Rightarrow> exc + package" where
  "numpy_ops_init w =
     foldl then_do (Inr \<lparr>globals = Map.empty, loaded = {}\<rparr>)
       [from_import w ''__future__'' ''absolute_import'' ''absolute_import'',
        from_import w ''__future__'' ''division'' ''division'',
        from_import w ''__future__'' ''print_function'' ''print_function'',
        from_import w ''tensorflow.python.ops.array_ops'' ''newaxis'' ''newaxis'',
        import_submodule w ''np_random'' ''random'',
        import_submodule w ''np_utils'' ''np_utils'',
        import_star w ''np_array_ops'',
        from_child_import w ''np_arrays'' ''ndarray'' ''ndarray'',
        import_star w ''np_dtypes'',
        import_star w ''np_math_ops'',
        from_child_import w ''np_utils'' ''finfo'' ''finfo'',
        from_child_import w ''np_utils'' ''promote_types'' ''promote_types'',
        from_child_import w ''np_utils'' ''result_type'' ''result_type'',
        def_alias w ''max'',
        def_alias w ''min'',
        def_alias w ''round'']"

text \<open>The namespace that importers of the package see; empty when the import fails.\<close>

definition exposed :: "world \<Rightarrow> namespace" where
  "exposed w = (case numpy_ops_init w of Inl e \<Rightarrow> Map.empty | Inr st \<Rightarrow> globals st)"

text \<open>
  The names that the three \<open>def\<close>s bind, the names that the explicit imports after the
  last wildcard import bind, and the other names that explicit imports bind.
\<close>

definition defined_names :: "string set" where
  "defined_names = {''max'', ''min'', ''round''}"

definition late_imports :: "string set" where
  "late_imports = {''finfo'', ''promote_types'', ''result_type''}"

definition early_imports :: "string set" where
  "early_imports = {''absolute_import'', ''division'', ''print_function'', ''newaxis'', ''random'',
                    ''np_utils'', ''ndarray''}"

text \<open>
  A world from which the package can be imported: the modules that the file names are
  there, with the submodules they bring in and the attributes that the file asks for;
  every name a wildcard import takes is bound in its module; and where a wildcard
  import brings a name \<open>np_utils\<close>, it is the module \<open>np_utils\<close> itself, whose \<open>np_doc\<close>
  and \<open>AliasOf\<close> the decorators use.
\<close>

definition has_module :: "world \<Rightarrow> string \<Rightarrow> bool" where
  "has_module w m =
     (case w m of
        None \<Rightarrow> False
      | Some md \<Rightarrow> list_all (\<lambda>x. w (submodule x) \<noteq> None) (loads md))"

definition has_attrs :: "world \<Rightarrow> string \<Rightarrow> string list \<Rightarrow> bool" where
  "has_attrs w m xs = list_all (\<lambda>x. module_attr w m x \<noteq> None) xs"

definition star_importable :: "world \<Rightarrow> string \<Rightarrow> bool" where
  "star_importable w c =
     (case w (submodule c) of
        None \<Rightarrow> False
      | Some md \<Rightarrow>
          list_all (\<lambda>x. map_of (attrs md) x \<noteq> None) (public_names md)
          \<and> (case map_of (attrs md) ''np_utils'' of
               None \<Rightarrow> True
             | Some v \<Rightarrow> ''np_utils'' \<in> set (public_names md) \<longrightarrow> v = Module (submodule ''np_utils'')))"

definition importable :: "world \<Rightarrow> bool" where
  "importable w \<longleftrightarrow>
     list_all (has_module w)
       [''__future__'', ''tensorflow.python.ops.array_ops'', submodule ''np_random'',
        submodule ''np_utils'', submodule ''np_array_ops'', submodule ''np_arrays'',
        submodule ''np_dtypes'', submodule ''np_math_ops'']
     \<and> has_attrs w ''__future__'' [''absolute_import'', ''division'', ''print_function'']
     \<and> has_attrs w ''tensorflow.python.ops.array_ops'' [''newaxis'']
     \<and> has_attrs w (submodule ''np_arrays'') [''ndarray'']
     \<and> has_attrs w (submodule ''np_utils'')
          [''np_doc'', ''AliasOf'', ''finfo'', ''promote_types'', ''result_type'']
     \<and> list_all (star_importable w) [''np_array_ops'', ''np_dtypes'', ''np_math_ops'']"

text \<open>
  The interface as section 6 of the specification lists it: array construction and
  manipulation functions, a dtype set, math operations, the random-number submodule
  (the name \<open>random\<close>), the utility functions \<open>finfo\<close>, \<open>promote_types\<close> and
  \<open>result_type\<close>, and the three alias functions.
\<close>

definition spec_lists :: "string \<Rightarrow> pyobj \<Rightarrow> bool" where
  "spec_lists n v \<longleftrightarrow>
     n \<in> {''random'', ''finfo'', ''promote_types'', ''result_type'', ''max'', ''min'', ''round''}
     \<or> (case v of Obj k i \<Rightarrow> k \<in> {ArrayFunction, DType, MathOperation} | _ \<Rightarrow> False)"

text \<open>
  A small world to run the package in: each sibling module with a few of its names.
  As modules without \<open>__all__\<close> do, the siblings pass on what they import themselves:
  \<open>np_array_ops\<close> and \<open>np_math_ops\<close> re-export the module \<open>np_utils\<close> and a feature of
  \<open>__future__\<close>. The import of \<open>np_random\<close> brings in the submodules it imports, and
  \<open>np_utils\<close> brings in \<open>np_export\<close>.
\<close>

definition example_world :: world where
  "example_world = map_of
     [(''__future__'',
         \<lparr>attrs = [(''absolute_import'', Obj Feature 1), (''division'', Obj Feature 2),
                   (''print_function'', Obj Feature 3)],
          dunder_all = None, loads = []\<rparr>),
      (''tensorflow.python.ops.array_ops'',
         \<lparr>attrs = [(''newaxis'', Obj Constant 10), (''reshape'', Obj ArrayFunction 11)],
          dunder_all = None, loads = []\<rparr>),
      (''tensorflow.python.ops.numpy_ops.np_export'',
         \<lparr>attrs = [(''np_export'', Obj UtilityFunction 15)], dunder_all = None, loads = []\<rparr>),
      (''tensorflow.python.ops.numpy_ops.np_random'',
         \<lparr>attrs = [(''seed'', Obj UtilityFunction 20), (''randn'', Obj ArrayFunction 21)],
          dunder_all = None,
          loads = [''np_export'', ''np_utils'', ''np_dtypes'', ''np_arrays'', ''np_array_ops'']\<rparr>),
      (''tensorflow.python.ops.numpy_ops.np_utils'',
         \<lparr>attrs = [(''np_doc'', Obj UtilityFunction 30), (''AliasOf'', Obj Class 31),
                   (''finfo'', Obj UtilityFunction 32), (''promote_types'', Obj UtilityFunction 33),
                   (''result_type'', Obj UtilityFunction 34)],
          dunder_all = None, loads = [''np_export'']\<rparr>),
      (''tensorflow.python.ops.numpy_ops.np_array_ops'',
         \<lparr>attrs = [(''division'', Obj Feature 2),
                   (''np_utils'', Module ''tensorflow.python.ops.numpy_ops.np_utils''),
                   (''zeros'', Obj ArrayFunction 40), (''amax'', Obj ArrayFunction 41),
                   (''amin'', Obj ArrayFunction 42), (''around'', Obj ArrayFunction 43),
                   (''_reduce'', Obj ArrayFunction 44)],
          dunder_all = None, loads = [''np_export'', ''np_utils'', ''np_dtypes'', ''np_arrays'']\<rparr>),
      (''tensorflow.python.ops.numpy_ops.np_arrays'',
         \<lparr>attrs = [(''ndarray'', Obj Class 50)], dunder_all = None, loads = [''np_dtypes'']\<rparr>),
      (''tensorflow.python.ops.numpy_ops.np_dtypes'',
         \<lparr>attrs = [(''float32'', Obj DType 60), (''int64'', Obj DType 61)],
          dunder_all = None, loads = []\<rparr>),
      (''tensorflow.python.ops.numpy_ops.np_math_ops'',
         \<lparr>attrs = [(''np_utils'', Module ''tensorflow.python.ops.numpy_ops.np_utils''),
                   (''add'', Obj MathOperation 70), (''maximum'', Obj MathOperation 71)],
          dunder_all = None,
          loads = [''np_export'', ''np_utils'', ''np_dtypes'', ''np_arrays'', ''np_array_ops'']\<rparr>)]"

text \<open>
  The same world, except that \<open>np_math_ops\<close> also binds the names \<open>ndarray\<close>,
  \<open>newaxis\<close> and \<open>random\<close>, to objects of its own.
\<close>

definition shadow_world :: world where
  "shadow_world = example_world
     (''tensorflow.python.ops.numpy_ops.np_math_ops'' \<mapsto>
        \<lparr>attrs = [(''ndarray'', Obj Class 97), (''newaxis'', Obj Constant 98),
                  (''random'', Obj UtilityFunction 99),
                  (''add'', Obj MathOperation 70), (''maximum'', Obj MathOperation 71)],
         dunder_all = None,
         loads = [''np_export'', ''np_utils'', ''np_dtypes'', ''np_arrays'', ''np_array_ops'']\<rparr>)"

text \<open>A delegate that returns \<open>None\<close> on every call and never raises.\<close>

definition never_raises :: "nat pyfun" where
  "never_raises c s = (Inr PyNone, s)"

subsection \<open>The effect of a statement on the package\<close>

text \<open>
  A statement first loads submodules, which binds the names of the newly loaded ones to
  the submodules, and then binds names of its own, given by the map \<open>b\<close>.
\<close>

definition binds :: "world \<Rightarrow> namespace \<Rightarrow> package \<Rightarrow> package \<Rightarrow> bool" where
  "binds w b st st' \<longleftrightarrow>
     loaded st \<subseteq> loaded st'
     \<and> (\<forall>x \<in> loaded st' - loaded st. w (submodule x) \<noteq> None)
     \<and> (\<forall>n. globals st' n =
           (case b n of
              Some v \<Rightarrow> Some v
            | None \<Rightarrow> if n \<in> loaded st' \<and> n \<notin> loaded st then Some (Module (submodule n))
                      else globals st n))"

text \<open>A name that no statement has bound yet: it is bound exactly when it is a loaded submodule.\<close>

definition fresh :: "package \<Rightarrow> string \<Rightarrow> bool" where
  "fresh st n \<longleftrightarrow>
     globals st n = (if n \<in> loaded st then Some (Module (submodule n)) else None)"

text \<open>
  A name stands for what the statements have bound it to last, \<open>S\<close>, unless the import
  system has bound it since then as the name of a submodule.
\<close>

definition settled :: "package \<Rightarrow> string \<Rightarrow> pyobj option \<Rightarrow> bool" where
  "settled st n S \<longleftrightarrow>
     globals st n = S \<or> (n \<in> loaded st \<and> globals st n = Some (Module (submodule n)))"

section \<open>Binding arguments\<close>

text \<open>The call sites that supply one, two or three values, by the number of positional arguments.\<close>

lemma supplies_cases3:
  assumes "supplies c [p1, p2, p3]"
  obtains
    (pos0) "args c = []" "distinct (map fst (kwargs c))" "set (kwargs c) = {p1, p2, p3}"
  | (pos1) "args c = [snd p1]" "distinct (map fst (kwargs c))" "set (kwargs c) = {p2, p3}"
  | (pos2) "args c = [snd p1, snd p2]" "distinct (map fst (kwargs c))" "set (kwargs c) = {p3}"
  | (pos3) "args c = [snd p1, snd p2, snd p3]" "kwargs c = []"
  using assms unfolding supplies_def
  by (auto simp: upt_rec list_ex_iff)

lemma supplies_cases2:
  assumes "supplies c [p1, p2]"
  obtains
    (pos0) "args c = []" "distinct (map fst (kwargs c))" "set (kwargs c) = {p1, p2}"
  | (pos1) "args c = [snd p1]" "distinct (map fst (kwargs c))" "set (kwargs c) = {p2}"
  | (pos2) "args c = [snd p1, snd p2]" "kwargs c = []"
  using assms unfolding supplies_def
  by (auto simp: upt_rec list_ex_iff)

lemma supplies_cases1:
  assumes "supplies c [p1]"
  obtains
    (pos0) "args c = []" "distinct (map fst (kwargs c))" "set (kwargs c) = {p1}"
  | (pos1) "args c = [snd p1]" "kwargs c = []"
  using assms unfolding supplies_def
  by (auto simp: upt_rec list_ex_iff)

text \<open>Binding raises nothing but \<open>TypeError\<close>.\<close>

lemma bind_args_error: "bind_args ps c = Inl e \<Longrightarrow> e = TypeError"
  by (auto simp: bind_args_def Let_def split: if_splits)

lemma bind_args_too_many: "length ps < length (args c) \<Longrightarrow> bind_args ps c = Inl TypeError"
  by (simp add: bind_args_def)

lemma bind_args_unexpected_keyword:
  assumes "k \<in> fst ` set (kwargs c)" and "k \<notin> fst ` set ps"
  shows "bind_args ps c = Inl TypeError"
proof -
  have "k \<notin> set (map fst (drop (length (args c)) ps))"
    using assms(2) by (auto dest: in_set_dropD)
  with assms(1)
  have "list_ex (\<lambda>k. k \<notin> set (map fst (drop (length (args c)) ps))) (map fst (kwargs c))"
    unfolding list_ex_iff by auto
  then show ?thesis
    by (simp add: bind_args_def Let_def)
qed

text \<open>Once the binding succeeds, every parameter of the signature has a value.\<close>

lemma bind_args_total:
  assumes "bind_args ps c = Inr env" and "p \<in> fst ` set ps"
  shows "\<exists>v. env p = Some v"
proof -
  let ?n = "length (args c)"
  let ?rest = "drop ?n ps"
  let ?defaults = "concat (map (\<lambda>(p, d). case d of None \<Rightarrow> [] | Some v \<Rightarrow> [(p, v)]) ?rest)"
  from assms(1) have len: "?n \<le> length ps"
    and req: "\<not> list_ex (\<lambda>(p, d). d = None \<and> p \<notin> set (map fst (kwargs c))) ?rest"
    and env: "env = map_of (zip (map fst ps) (args c) @ kwargs c @ ?defaults)"
    by (auto simp: bind_args_def Let_def split: if_splits)
  from assms(2) obtain d where "(p, d) \<in> set ps" by auto
  then have "(p, d) \<in> set (take ?n ps) \<or> (p, d) \<in> set ?rest"
    by (metis Un_iff append_take_drop_id set_append)
  then show ?thesis
  proof
    assume "(p, d) \<in> set (take ?n ps)"
    then have "p \<in> set (map fst (take ?n ps))" by force
    moreover have "map fst (zip (map fst ps) (args c)) = map fst (take ?n ps)"
      using len by (simp add: take_map[symmetric] map_fst_zip_take min_def)
    ultimately have "p \<in> fst ` set (zip (map fst ps) (args c))"
      by (metis set_map)
    then have "map_of (zip (map fst ps) (args c)) p \<noteq> None"
      by (simp add: map_of_eq_None_iff)
    then show ?thesis unfolding env by (auto simp: map_add_def split: option.splits)
  next
    assume r: "(p, d) \<in> set ?rest"
    show ?thesis
    proof (cases "p \<in> fst ` set (kwargs c)")
      case True
      then have "map_of (kwargs c) p \<noteq> None" by (simp add: map_of_eq_None_iff)
      then show ?thesis unfolding env by (auto simp: map_add_def split: option.splits)
    next
      case False
      with r req obtain v where "d = Some v" by (cases d) (auto simp: list_ex_iff)
      with r have "(p, v) \<in> set ?defaults" by force
      then have "p \<in> fst ` set ?defaults" by force
      then have "map_of ?defaults p \<noteq> None" by (simp only: map_of_eq_None_iff not_not)
      then show ?thesis unfolding env by (auto simp: map_add_def split: option.splits)
    qed
  qed
qed

text \<open>What the two signatures of the file bind at the call sites that supply their parameters.\<close>

lemma bind3_supplied:
  assumes "supplies c [(''a'', a), (''axis'', axis), (''keepdims'', keepdims)]"
  shows "\<exists>env. bind_args [(''a'', None), (''axis'', Some d1), (''keepdims'', Some d2)] c = Inr env
           \<and> env ''a'' = Some a \<and> env ''axis'' = Some axis \<and> env ''keepdims'' = Some keepdims"
  using assms
  by (cases rule: supplies_cases3)
     (auto simp: bind_args_def list_ex_iff map_add_def split: option.splits prod.splits)

lemma bind2_supplied:
  assumes "supplies c [(''a'', a), (''decimals'', decimals)]"
  shows "\<exists>env. bind_args [(''a'', None), (''decimals'', Some d1)] c = Inr env
           \<and> env ''a'' = Some a \<and> env ''decimals'' = Some decimals"
  using assms
  by (cases rule: supplies_cases2)
     (auto simp: bind_args_def list_ex_iff map_add_def split: option.splits prod.splits)

lemma bind2_default:
  assumes "supplies c [(''a'', a)]"
  shows "\<exists>env. bind_args [(''a'', None), (''decimals'', Some d1)] c = Inr env
           \<and> env ''a'' = Some a \<and> env ''decimals'' = Some d1"
  using assms
  by (cases rule: supplies_cases1)
     (auto simp: bind_args_def list_ex_iff map_add_def split: option.splits prod.splits)

section \<open>The aliases forward to their delegates\<close>

lemma max_alias_supplied:
  assumes "supplies c [(''a'', a), (''axis'', axis), (''keepdims'', keepdims)]"
  shows "max_alias amax c s =
           amax \<lparr>args = [a], kwargs = [(''axis'', axis), (''keepdims'', keepdims)]\<rparr> s"
  using bind3_supplied[OF assms, of PyNone PyNone]
  by (auto simp: max_alias_def np_doc_def)

lemma min_alias_supplied:
  assumes "supplies c [(''a'', a), (''axis'', axis), (''keepdims'', keepdims)]"
  shows "min_alias amin c s =
           amin \<lparr>args = [a], kwargs = [(''axis'', axis), (''keepdims'', keepdims)]\<rparr> s"
  using bind3_supplied[OF assms, of PyNone PyNone]
  by (auto simp: min_alias_def np_doc_def)

lemma round_alias_supplied:
  assumes "supplies c [(''a'', a), (''decimals'', decimals)]"
  shows "round_alias around c s = around \<lparr>args = [a], kwargs = [(''decimals'', decimals)]\<rparr> s"
  using bind2_supplied[OF assms, of "PyInt 0"]
  by (auto simp: round_alias_def np_doc_def)

lemma round_alias_default:
  assumes "supplies c [(''a'', a)]"
  shows "round_alias around c s = around \<lparr>args = [a], kwargs = [(''decimals'', PyInt 0)]\<rparr> s"
  using bind2_default[OF assms, of "PyInt 0"]
  by (auto simp: round_alias_def np_doc_def)




text \<open>An argument beyond the signature stops the call at the binding.\<close>

lemma max_alias_rejects:
  assumes "3 < length (args c) \<or> (\<exists>k \<in> fst ` set (kwargs c). k \<notin> {''a'', ''axis'', ''keepdims''})"
  shows "max_alias amax c s = (Inl TypeError, s)"
proof -
  have "bind_args [(''a'', None), (''axis'', Some PyNone), (''keepdims'', Some PyNone)] c
          = Inl TypeError"
    using assms
  proof
    assume "3 < length (args c)"
    then show ?thesis by (intro bind_args_too_many) simp
  next
    assume "\<exists>k \<in> fst ` set (kwargs c). k \<notin> {''a'', ''axis'', ''keepdims''}"
    then obtain k where "k \<in> fst ` set (kwargs c)" "k \<notin> {''a'', ''axis'', ''keepdims''}" by blast
    then show ?thesis by (intro bind_args_unexpected_keyword[of k]) simp_all
  qed
  then show ?thesis by (simp add: max_alias_def np_doc_def)
qed

lemma min_alias_rejects:
  assumes "3 < length (args c) \<or> (\<exists>k \<in> fst ` set (kwargs c). k \<notin> {''a'', ''axis'', ''keepdims''})"
  shows "min_alias amin c s = (Inl TypeError, s)"
proof -
  have "bind_args [(''a'', None), (''axis'', Some PyNone), (''keepdims'', Some PyNone)] c
          = Inl TypeError"
    using assms
  proof
    assume "3 < length (args c)"
    then show ?thesis by (intro bind_args_too_many) simp
  next
    assume "\<exists>k \<in> fst ` set (kwargs c). k \<notin> {''a'', ''axis'', ''keepdims''}"
    then obtain k where "k \<in> fst ` set (kwargs c)" "k \<notin> {''a'', ''axis'', ''keepdims''}" by blast
    then show ?thesis by (intro bind_args_unexpected_keyword[of k]) simp_all
  qed
  then show ?thesis by (simp add: min_alias_def np_doc_def)
qed

lemma round_alias_rejects:
  assumes "2 < length (args c) \<or> (\<exists>k \<in> fst ` set (kwargs c). k \<notin> {''a'', ''decimals''})"
  shows "round_alias around c s = (Inl TypeError, s)"
proof -
  have "bind_args [(''a'', None), (''decimals'', Some (PyInt 0))] c = Inl TypeError"
    using assms
  proof
    assume "2 < length (args c)"
    then show ?thesis by (intro bind_args_too_many) simp
  next
    assume "\<exists>k \<in> fst ` set (kwargs c). k \<notin> {''a'', ''decimals''}"
    then obtain k where "k \<in> fst ` set (kwargs c)" "k \<notin> {''a'', ''decimals''}" by blast
    then show ?thesis by (intro bind_args_unexpected_keyword[of k]) simp_all
  qed
  then show ?thesis by (simp add: round_alias_def np_doc_def)
qed

text \<open>
  When an alias raises: the binding rejects the call, or the delegate raises on the
  arguments that the binding has produced.
\<close>

lemma max_alias_raises:
  "fst (max_alias amax c s) = Inl e \<longleftrightarrow>
     (bind_args [(''a'', None), (''axis'', Some PyNone), (''keepdims'', Some PyNone)] c = Inl TypeError
        \<and> e = TypeError)
     \<or> (\<exists>env a axis keepdims.
          bind_args [(''a'', None), (''axis'', Some PyNone), (''keepdims'', Some PyNone)] c = Inr env
          \<and> env ''a'' = Some a \<and> env ''axis'' = Some axis \<and> env ''keepdims'' = Some keepdims
          \<and> fst (amax \<lparr>args = [a], kwargs = [(''axis'', axis), (''keepdims'', keepdims)]\<rparr> s) = Inl e)"
proof (cases "bind_args [(''a'', None), (''axis'', Some PyNone), (''keepdims'', Some PyNone)] c")
  case (Inl e')
  then show ?thesis
    using bind_args_error[OF Inl] by (auto simp: max_alias_def np_doc_def)
next
  case (Inr env)
  from bind_args_total[OF Inr, of "''a''"] bind_args_total[OF Inr, of "''axis''"]
    bind_args_total[OF Inr, of "''keepdims''"]
  obtain a axis keepdims where "env ''a'' = Some a" "env ''axis'' = Some axis"
    "env ''keepdims'' = Some keepdims" by auto
  with Inr show ?thesis by (auto simp: max_alias_def np_doc_def)
qed

lemma min_alias_raises:
  "fst (min_alias amin c s) = Inl e \<longleftrightarrow>
     (bind_args [(''a'', None), (''axis'', Some PyNone), (''keepdims'', Some PyNone)] c = Inl TypeError
        \<and> e = TypeError)
     \<or> (\<exists>env a axis keepdims.
          bind_args [(''a'', None), (''axis'', Some PyNone), (''keepdims'', Some PyNone)] c = Inr env
          \<and> env ''a'' = Some a \<and> env ''axis'' = Some axis \<and> env ''keepdims'' = Some keepdims
          \<and> fst (amin \<lparr>args = [a], kwargs = [(''axis'', axis), (''keepdims'', keepdims)]\<rparr> s) = Inl e)"
proof (cases "bind_args [(''a'', None), (''axis'', Some PyNone), (''keepdims'', Some PyNone)] c")
  case (Inl e')
  then show ?thesis
    using bind_args_error[OF Inl] by (auto simp: min_alias_def np_doc_def)
next
  case (Inr env)
  from bind_args_total[OF Inr, of "''a''"] bind_args_total[OF Inr, of "''axis''"]
    bind_args_total[OF Inr, of "''keepdims''"]
  obtain a axis keepdims where "env ''a'' = Some a" "env ''axis'' = Some axis"
    "env ''keepdims'' = Some keepdims" by auto
  with Inr show ?thesis by (auto simp: min_alias_def np_doc_def)
qed

lemma round_alias_raises:
  "fst (round_alias around c s) = Inl e \<longleftrightarrow>
     (bind_args [(''a'', None), (''decimals'', Some (PyInt 0))] c = Inl TypeError \<and> e = TypeError)
     \<or> (\<exists>env a decimals.
          bind_args [(''a'', None), (''decimals'', Some (PyInt 0))] c = Inr env
          \<and> env ''a'' = Some a \<and> env ''decimals'' = Some decimals
          \<and> fst (around \<lparr>args = [a], kwargs = [(''decimals'', decimals)]\<rparr> s) = Inl e)"
proof (cases "bind_args [(''a'', None), (''decimals'', Some (PyInt 0))] c")
  case (Inl e')
  then show ?thesis
    using bind_args_error[OF Inl] by (auto simp: round_alias_def np_doc_def)
next
  case (Inr env)
  from bind_args_total[OF Inr, of "''a''"] bind_args_total[OF Inr, of "''decimals''"]
  obtain a decimals where "env ''a'' = Some a" "env ''decimals'' = Some decimals" by auto
  with Inr show ?thesis by (auto simp: round_alias_def np_doc_def)
qed

section \<open>The namespace after the import\<close>

lemma then_do_Inr: "then_do r f = Inr y \<longleftrightarrow> (\<exists>x. r = Inr x \<and> f x = Inr y)"
  by (cases r) (auto simp: then_do_def)

lemma binds_refl: "binds w Map.empty st st"
  by (simp add: binds_def)

lemma binds_trans:
  assumes "binds w Map.empty st st1" and "binds w b st1 st2"
  shows "binds w b st st2"
  using assms unfolding binds_def
  by (auto split: option.splits)

lemma load_child_binds:
  assumes "load_child w x st = Inr st'"
  shows "binds w Map.empty st st'" and "x \<in> loaded st'" and "x \<in> loaded st \<Longrightarrow> st' = st"
  using assms by (auto simp: load_child_def binds_def split: if_splits option.splits)

lemma load_children_binds:
  "load_children w xs st = Inr st' \<Longrightarrow> binds w Map.empty st st'"
proof (induction xs arbitrary: st)
  case Nil
  then show ?case by (simp add: binds_refl)
next
  case (Cons x xs)
  then obtain st1 where 1: "load_child w x st = Inr st1" and 2: "load_children w xs st1 = Inr st'"
    by (auto simp: then_do_Inr)
  from load_child_binds(1)[OF 1] Cons.IH[OF 2] show ?case by (rule binds_trans)
qed

lemma import_module_binds:
  "import_module w m st = Inr st' \<Longrightarrow> binds w Map.empty st st'"
  by (auto simp: import_module_def split: option.splits dest: load_children_binds)

lemma import_child_binds:
  assumes "import_child w c st = Inr st'"
  shows "binds w Map.empty st st'" and "c \<in> loaded st'" and "c \<in> loaded st \<Longrightarrow> st' = st"
    and "w (submodule c) \<noteq> None"
proof -
  show "binds w Map.empty st st'"
    using assms
    by (auto simp: import_child_def then_do_Inr binds_refl split: option.splits if_splits
        intro: binds_trans dest!: load_children_binds load_child_binds(1))
  show "c \<in> loaded st'"
    using assms
    by (auto simp: import_child_def then_do_Inr split: option.splits if_splits
        dest: load_child_binds(2))
  show "c \<in> loaded st \<Longrightarrow> st' = st"
    using assms by (auto simp: import_child_def split: option.splits)
  show "w (submodule c) \<noteq> None"
    using assms by (auto simp: import_child_def split: option.splits)
qed

lemma binds_then_update:
  assumes "binds w Map.empty st st1"
  shows "binds w [y \<mapsto> v] st (st1\<lparr>globals := (globals st1)(y \<mapsto> v)\<rparr>)"
  using assms unfolding binds_def by auto

lemma from_import_binds:
  assumes "from_import w m x y st = Inr st'"
  obtains v where "module_attr w m x = Some v" and "binds w [y \<mapsto> v] st st'"
  using assms
  by (auto simp: from_import_def then_do_Inr bind_attr_def split: option.splits
      dest!: import_module_binds intro: binds_then_update)

lemma from_child_import_binds:
  assumes "from_child_import w c x y st = Inr st'"
  obtains v where "module_attr w (submodule c) x = Some v" and "binds w [y \<mapsto> v] st st'"
    and "c \<in> loaded st'" and "c \<in> loaded st \<longrightarrow> loaded st' = loaded st"
proof -
  from assms obtain st1 v where 1: "import_child w c st = Inr st1"
    and 2: "module_attr w (submodule c) x = Some v"
    and 3: "st' = st1\<lparr>globals := (globals st1)(y \<mapsto> v)\<rparr>"
    by (auto simp: from_child_import_def then_do_Inr bind_attr_def split: option.splits)
  have "binds w [y \<mapsto> v] st st'"
    unfolding 3 using import_child_binds(1)[OF 1] by (rule binds_then_update)
  moreover have "c \<in> loaded st'" using import_child_binds(2)[OF 1] 3 by simp
  moreover have "c \<in> loaded st \<longrightarrow> loaded st' = loaded st"
    using import_child_binds(3)[OF 1] 3 by auto
  ultimately show ?thesis using that 2 by blast
qed

lemma bind_names_globals:
  "bind_names md xs st = Inr st' \<Longrightarrow>
     loaded st' = loaded st
     \<and> (\<forall>n. globals st' n = (if n \<in> set xs then map_of (attrs md) n else globals st n))
     \<and> (\<forall>n \<in> set xs. map_of (attrs md) n \<noteq> None)"
proof (induction xs arbitrary: st)
  case Nil
  then show ?case by simp
next
  case (Cons x xs)
  then show ?case by (auto split: option.splits if_splits)
qed

lemma import_star_binds:
  assumes "import_star w c st = Inr st'"
  shows "binds w (\<lambda>n. if n \<in> star_names w c then module_attr w (submodule c) n else None) st st'"
    and "c \<in> loaded st'"
    and "\<forall>n \<in> star_names w c. module_attr w (submodule c) n \<noteq> None"
proof -
  from assms obtain st1 md where 1: "import_child w c st = Inr st1"
    and 2: "w (submodule c) = Some md"
    and 3: "bind_names md (public_names md) st1 = Inr st'"
    by (auto simp: import_star_def then_do_Inr split: option.splits)
  note g = bind_names_globals[OF 3]
  have s: "star_names w c = set (public_names md)"
    by (simp add: star_names_def 2)
  have a: "module_attr w (submodule c) n = map_of (attrs md) n" for n
    by (simp add: module_attr_def 2)
  show "\<forall>n \<in> star_names w c. module_attr w (submodule c) n \<noteq> None"
    using g by (simp add: s a)
  show "c \<in> loaded st'" using import_child_binds(2)[OF 1] g by simp
  show "binds w (\<lambda>n. if n \<in> star_names w c then module_attr w (submodule c) n else None) st st'"
    using import_child_binds(1)[OF 1] g
    unfolding binds_def s a
    by (auto split: option.splits)
qed

lemma import_submodule_binds:
  assumes "import_submodule w x y st = Inr st'" and "fresh st x"
  shows "binds w [y \<mapsto> Module (submodule x)] st st'" and "x \<in> loaded st'"
proof -
  show "binds w [y \<mapsto> Module (submodule x)] st st'"
  proof (cases "globals st x")
    case None
    with assms(1) obtain st1 where 1: "import_child w x st = Inr st1"
      and 2: "st' = st1\<lparr>globals := (globals st1)
                (y \<mapsto> (case globals st1 x of Some v \<Rightarrow> v | None \<Rightarrow> Module (submodule x)))\<rparr>"
      by (auto simp: import_submodule_def then_do_Inr)
    from None assms(2) have "x \<notin> loaded st" by (auto simp: fresh_def split: if_splits)
    with import_child_binds(1,2)[OF 1] None have "globals st1 x = Some (Module (submodule x))"
      by (auto simp: binds_def)
    with 2 have "st' = st1\<lparr>globals := (globals st1)(y \<mapsto> Module (submodule x))\<rparr>" by simp
    then show ?thesis using import_child_binds(1)[OF 1] by (simp add: binds_then_update)
  next
    case (Some v)
    with assms(2) have v: "v = Module (submodule x)" by (auto simp: fresh_def split: if_splits)
    from Some assms(1) have "st' = st\<lparr>globals := (globals st)(y \<mapsto> v)\<rparr>"
      by (auto simp: import_submodule_def)
    then show ?thesis unfolding v by (simp add: binds_then_update binds_refl)
  qed
  show "x \<in> loaded st'"
  proof (cases "globals st x")
    case None
    with assms(1) obtain st1 where 1: "import_child w x st = Inr st1"
      and 2: "loaded st' = loaded st1"
      by (auto simp: import_submodule_def then_do_Inr)
    with import_child_binds(2)[OF 1] show ?thesis by simp
  next
    case (Some v)
    with assms(2) have "x \<in> loaded st" by (auto simp: fresh_def split: if_splits)
    moreover from Some assms(1) have "loaded st' = loaded st"
      by (auto simp: import_submodule_def)
    ultimately show ?thesis by simp
  qed
qed

lemma def_alias_binds:
  assumes "def_alias w name st = Inr st'"
  shows "binds w [name \<mapsto> Function name] st st'" and "loaded st' = loaded st"
    and "\<exists>m. globals st ''np_utils'' = Some (Module m)"
  using assms
  by (auto simp: def_alias_def binds_def split: option.splits pyobj.splits)

lemma binds_fresh: "binds w b st st' \<Longrightarrow> b n = None \<Longrightarrow> fresh st n \<Longrightarrow> fresh st' n"
  unfolding binds_def fresh_def by (auto split: if_splits)

lemma binds_bound: "binds w b st st' \<Longrightarrow> b n = Some v \<Longrightarrow> globals st' n = Some v"
  unfolding binds_def by simp

lemma binds_settled:
  "binds w b st st' \<Longrightarrow> settled st n S \<Longrightarrow>
     settled st' n (case b n of Some v \<Rightarrow> Some v | None \<Rightarrow> S)"
  unfolding binds_def settled_def by (auto split: option.splits)

lemma binds_same_loaded:
  "binds w b st st' \<Longrightarrow> loaded st' = loaded st \<Longrightarrow>
     globals st' n = (case b n of Some v \<Rightarrow> Some v | None \<Rightarrow> globals st n)"
  unfolding binds_def by (auto split: option.splits)

lemma binds_dom:
  "binds w b st st' \<Longrightarrow> dom (globals st') = dom (globals st) \<union> dom b \<union> (loaded st' - loaded st)"
  unfolding binds_def by (auto simp: dom_def split: option.splits if_splits)

lemma binds_loaded_bound:
  "binds w b st st' \<Longrightarrow> loaded st \<subseteq> dom (globals st) \<Longrightarrow> loaded st' \<subseteq> dom (globals st')"
  unfolding binds_def by (auto simp: dom_def split: option.splits if_splits)

lemma binds_loaded_exist:
  "binds w b st st' \<Longrightarrow> \<forall>x \<in> loaded st. w (submodule x) \<noteq> None \<Longrightarrow>
     \<forall>x \<in> loaded st'. w (submodule x) \<noteq> None"
  unfolding binds_def by blast

lemma binds_mono: "binds w b st st' \<Longrightarrow> loaded st \<subseteq> loaded st'"
  unfolding binds_def by blast

lemma binds_keeps_module:
  "binds w b st st' \<Longrightarrow> globals st x = Some (Module (submodule x)) \<Longrightarrow>
     b x = None \<or> b x = Some (Module (submodule x)) \<Longrightarrow>
     globals st' x = Some (Module (submodule x))"
  unfolding binds_def by (auto split: option.splits)

text \<open>The packages between the statements of a successful import.\<close>

lemma numpy_ops_init_steps:
  assumes "numpy_ops_init w = Inr st"
  obtains s1 s2 s3 s4 s5 s6 s7 s8 s9 s10 s11 s12 s13 s14 s15 where
    "from_import w ''__future__'' ''absolute_import'' ''absolute_import''
       \<lparr>globals = Map.empty, loaded = {}\<rparr> = Inr s1"
    "from_import w ''__future__'' ''division'' ''division'' s1 = Inr s2"
    "from_import w ''__future__'' ''print_function'' ''print_function'' s2 = Inr s3"
    "from_import w ''tensorflow.python.ops.array_ops'' ''newaxis'' ''newaxis'' s3 = Inr s4"
    "import_submodule w ''np_random'' ''random'' s4 = Inr s5"
    "import_submodule w ''np_utils'' ''np_utils'' s5 = Inr s6"
    "import_star w ''np_array_ops'' s6 = Inr s7"
    "from_child_import w ''np_arrays'' ''ndarray'' ''ndarray'' s7 = Inr s8"
    "import_star w ''np_dtypes'' s8 = Inr s9"
    "import_star w ''np_math_ops'' s9 = Inr s10"
    "from_child_import w ''np_utils'' ''finfo'' ''finfo'' s10 = Inr s11"
    "from_child_import w ''np_utils'' ''promote_types'' ''promote_types'' s11 = Inr s12"
    "from_child_import w ''np_utils'' ''result_type'' ''result_type'' s12 = Inr s13"
    "def_alias w ''max'' s13 = Inr s14"
    "def_alias w ''min'' s14 = Inr s15"
    "def_alias w ''round'' s15 = Inr st"
  using assms unfolding numpy_ops_init_def foldl.simps then_do_Inr
  by blast

lemma binds_dom_step:
  assumes "binds w b st st'" and "dom b = N" and "dom (globals st) = D \<union> loaded st"
  shows "dom (globals st') = (D \<union> N) \<union> loaded st'"
  using binds_dom[OF assms(1)] binds_mono[OF assms(1)] assms(2,3) by blast

lemma star_dom:
  assumes "\<forall>n \<in> star_names w c. module_attr w (submodule c) n \<noteq> None"
  shows "dom (\<lambda>n. if n \<in> star_names w c then module_attr w (submodule c) n else None)
           = star_names w c"
  using assms by (auto simp: dom_def)

text \<open>What a successful import has done, statement by statement.\<close>

lemma numpy_ops_init_trace:
  assumes "numpy_ops_init w = Inr st"
  obtains s1 s2 s3 s4 s5 s6 s7 s8 s9 s10 s11 s12 s13 s14 s15 v1 v2 v3 v4 v8 v11 v12 v13 where
    "module_attr w ''__future__'' ''absolute_import'' = Some v1"
    "module_attr w ''__future__'' ''division'' = Some v2"
    "module_attr w ''__future__'' ''print_function'' = Some v3"
    "module_attr w ''tensorflow.python.ops.array_ops'' ''newaxis'' = Some v4"
    "module_attr w (submodule ''np_arrays'') ''ndarray'' = Some v8"
    "module_attr w (submodule ''np_utils'') ''finfo'' = Some v11"
    "module_attr w (submodule ''np_utils'') ''promote_types'' = Some v12"
    "module_attr w (submodule ''np_utils'') ''result_type'' = Some v13"
    "binds w [''absolute_import'' \<mapsto> v1] \<lparr>globals = Map.empty, loaded = {}\<rparr> s1"
    "binds w [''division'' \<mapsto> v2] s1 s2"
    "binds w [''print_function'' \<mapsto> v3] s2 s3"
    "binds w [''newaxis'' \<mapsto> v4] s3 s4"
    "binds w [''random'' \<mapsto> Module (submodule ''np_random'')] s4 s5"
    "binds w [''np_utils'' \<mapsto> Module (submodule ''np_utils'')] s5 s6"
    "binds w (\<lambda>n. if n \<in> star_names w ''np_array_ops''
                   then module_attr w (submodule ''np_array_ops'') n else None) s6 s7"
    "binds w [''ndarray'' \<mapsto> v8] s7 s8"
    "binds w (\<lambda>n. if n \<in> star_names w ''np_dtypes''
                   then module_attr w (submodule ''np_dtypes'') n else None) s8 s9"
    "binds w (\<lambda>n. if n \<in> star_names w ''np_math_ops''
                   then module_attr w (submodule ''np_math_ops'') n else None) s9 s10"
    "binds w [''finfo'' \<mapsto> v11] s10 s11"
    "binds w [''promote_types'' \<mapsto> v12] s11 s12"
    "binds w [''result_type'' \<mapsto> v13] s12 s13"
    "binds w [''max'' \<mapsto> Function ''max''] s13 s14"
    "binds w [''min'' \<mapsto> Function ''min''] s14 s15"
    "binds w [''round'' \<mapsto> Function ''round''] s15 st"
    "{''np_random'', ''np_utils'', ''np_array_ops'', ''np_arrays'', ''np_dtypes'', ''np_math_ops''}
       \<subseteq> loaded s10"
    "loaded s11 = loaded s10" "loaded s12 = loaded s10" "loaded s13 = loaded s10"
    "loaded s14 = loaded s10" "loaded s15 = loaded s10" "loaded st = loaded s10"
    "\<forall>n \<in> star_names w ''np_array_ops''. module_attr w (submodule ''np_array_ops'') n \<noteq> None"
    "\<forall>n \<in> star_names w ''np_dtypes''. module_attr w (submodule ''np_dtypes'') n \<noteq> None"
    "\<forall>n \<in> star_names w ''np_math_ops''. module_attr w (submodule ''np_math_ops'') n \<noteq> None"
    "\<exists>m. globals s13 ''np_utils'' = Some (Module m)"
proof -
  let ?s0 = "\<lparr>globals = Map.empty, loaded = {}\<rparr>"
  from assms obtain s1 s2 s3 s4 s5 s6 s7 s8 s9 s10 s11 s12 s13 s14 s15 where
    e1: "from_import w ''__future__'' ''absolute_import'' ''absolute_import'' ?s0 = Inr s1"
    and e2: "from_import w ''__future__'' ''division'' ''division'' s1 = Inr s2"
    and e3: "from_import w ''__future__'' ''print_function'' ''print_function'' s2 = Inr s3"
    and e4: "from_import w ''tensorflow.python.ops.array_ops'' ''newaxis'' ''newaxis'' s3 = Inr s4"
    and e5: "import_submodule w ''np_random'' ''random'' s4 = Inr s5"
    and e6: "import_submodule w ''np_utils'' ''np_utils'' s5 = Inr s6"
    and e7: "import_star w ''np_array_ops'' s6 = Inr s7"
    and e8: "from_child_import w ''np_arrays'' ''ndarray'' ''ndarray'' s7 = Inr s8"
    and e9: "import_star w ''np_dtypes'' s8 = Inr s9"
    and e10: "import_star w ''np_math_ops'' s9 = Inr s10"
    and e11: "from_child_import w ''np_utils'' ''finfo'' ''finfo'' s10 = Inr s11"
    and e12: "from_child_import w ''np_utils'' ''promote_types'' ''promote_types'' s11 = Inr s12"
    and e13: "from_child_import w ''np_utils'' ''result_type'' ''result_type'' s12 = Inr s13"
    and e14: "def_alias w ''max'' s13 = Inr s14"
    and e15: "def_alias w ''min'' s14 = Inr s15"
    and e16: "def_alias w ''round'' s15 = Inr st"
    by (rule numpy_ops_init_steps)
  from e1 obtain v1 where a1: "module_attr w ''__future__'' ''absolute_import'' = Some v1"
    and b1: "binds w [''absolute_import'' \<mapsto> v1] ?s0 s1" by (rule from_import_binds)
  from e2 obtain v2 where a2: "module_attr w ''__future__'' ''division'' = Some v2"
    and b2: "binds w [''division'' \<mapsto> v2] s1 s2" by (rule from_import_binds)
  from e3 obtain v3 where a3: "module_attr w ''__future__'' ''print_function'' = Some v3"
    and b3: "binds w [''print_function'' \<mapsto> v3] s2 s3" by (rule from_import_binds)
  from e4 obtain v4 where a4: "module_attr w ''tensorflow.python.ops.array_ops'' ''newaxis'' = Some v4"
    and b4: "binds w [''newaxis'' \<mapsto> v4] s3 s4" by (rule from_import_binds)
  have f0: "fresh ?s0 x" for x by (simp add: fresh_def)
  have f4: "fresh s4 ''np_random''"
    using binds_fresh[OF b4 _ binds_fresh[OF b3 _ binds_fresh[OF b2 _ binds_fresh[OF b1 _ f0]]]]
    by simp
  have g4: "fresh s4 ''np_utils''"
    using binds_fresh[OF b4 _ binds_fresh[OF b3 _ binds_fresh[OF b2 _ binds_fresh[OF b1 _ f0]]]]
    by simp
  note b5 = import_submodule_binds(1)[OF e5 f4]
  have g5: "fresh s5 ''np_utils''"
    using binds_fresh[OF b5 _ g4] by simp
  note b6 = import_submodule_binds(1)[OF e6 g5]
  note b7 = import_star_binds(1)[OF e7]
  from e8 obtain v8 where a8: "module_attr w (submodule ''np_arrays'') ''ndarray'' = Some v8"
    and b8: "binds w [''ndarray'' \<mapsto> v8] s7 s8" and l8: "''np_arrays'' \<in> loaded s8"
    by (rule from_child_import_binds)
  note b9 = import_star_binds(1)[OF e9]
  note b10 = import_star_binds(1)[OF e10]
  have l6: "''np_utils'' \<in> loaded s6" by (rule import_submodule_binds(2)[OF e6 g5])
  have l5: "''np_random'' \<in> loaded s5" by (rule import_submodule_binds(2)[OF e5 f4])
  note m = binds_mono[OF b6] binds_mono[OF b7] binds_mono[OF b8] binds_mono[OF b9]
    binds_mono[OF b10]
  have six: "{''np_random'', ''np_utils'', ''np_array_ops'', ''np_arrays'', ''np_dtypes'',
              ''np_math_ops''} \<subseteq> loaded s10"
    using l5 l6 l8 import_star_binds(2)[OF e7] import_star_binds(2)[OF e9]
      import_star_binds(2)[OF e10] m by blast
  then have u10: "''np_utils'' \<in> loaded s10" by simp
  from e11 obtain v11 where a11: "module_attr w (submodule ''np_utils'') ''finfo'' = Some v11"
    and b11: "binds w [''finfo'' \<mapsto> v11] s10 s11"
    and l11: "''np_utils'' \<in> loaded s10 \<longrightarrow> loaded s11 = loaded s10"
    by (rule from_child_import_binds)
  from l11 u10 have L11: "loaded s11 = loaded s10" by simp
  from e12 obtain v12 where a12: "module_attr w (submodule ''np_utils'') ''promote_types'' = Some v12"
    and b12: "binds w [''promote_types'' \<mapsto> v12] s11 s12"
    and l12: "''np_utils'' \<in> loaded s11 \<longrightarrow> loaded s12 = loaded s11"
    by (rule from_child_import_binds)
  from l12 u10 L11 have L12: "loaded s12 = loaded s10" by simp
  from e13 obtain v13 where a13: "module_attr w (submodule ''np_utils'') ''result_type'' = Some v13"
    and b13: "binds w [''result_type'' \<mapsto> v13] s12 s13"
    and l13: "''np_utils'' \<in> loaded s12 \<longrightarrow> loaded s13 = loaded s12"
    by (rule from_child_import_binds)
  from l13 u10 L12 have L13: "loaded s13 = loaded s10" by simp
  have L14: "loaded s14 = loaded s10" using def_alias_binds(2)[OF e14] L13 by simp
  have L15: "loaded s15 = loaded s10" using def_alias_binds(2)[OF e15] L14 by simp
  have L16: "loaded st = loaded s10" using def_alias_binds(2)[OF e16] L15 by simp
  show ?thesis
    by (rule that[OF a1 a2 a3 a4 a8 a11 a12 a13 b1 b2 b3 b4 b5 b6 b7 b8 b9 b10 b11 b12 b13
          def_alias_binds(1)[OF e14] def_alias_binds(1)[OF e15] def_alias_binds(1)[OF e16]
          six L11 L12 L13 L14 L15 L16
          import_star_binds(3)[OF e7] import_star_binds(3)[OF e9] import_star_binds(3)[OF e10]
          def_alias_binds(3)[OF e14]])
qed

lemma binds_settled_one:
  "binds w [y \<mapsto> v] st st' \<Longrightarrow> settled st n S \<Longrightarrow>
     settled st' n (if n = y then Some v else S)"
  using binds_settled[of w "[y \<mapsto> v]" st st' n S] by (simp split: if_splits)

lemma binds_settled_star:
  assumes "binds w (\<lambda>n. if n \<in> A then f n else None) st st'" and "\<forall>n \<in> A. f n \<noteq> None"
    and "settled st n S"
  shows "settled st' n (if n \<in> A then f n else S)"
  using binds_settled[OF assms(1,3)] assms(2) by (auto split: option.splits if_splits)

lemma binds_dom_one:
  assumes "binds w [y \<mapsto> v] st st'" and "dom (globals st) = D \<union> loaded st"
  shows "dom (globals st') = insert y D \<union> loaded st'"
  using binds_dom_step[OF assms(1) _ assms(2), of "{y}"] by simp

lemma binds_dom_star:
  assumes "binds w (\<lambda>n. if n \<in> A then f n else None) st st'" and "\<forall>n \<in> A. f n \<noteq> None"
    and "dom (globals st) = D \<union> loaded st"
  shows "dom (globals st') = (D \<union> A) \<union> loaded st'"
proof -
  have "dom (\<lambda>n. if n \<in> A then f n else None) = A"
    using assms(2) by (auto simp: dom_def)
  from binds_dom_step[OF assms(1) this assms(3)] show ?thesis .
qed

lemma names_rearrange:
  "insert r (insert mi (insert ma (insert rt (insert pt (insert fi
     (insert nd (insert nu (insert ra (insert na (insert pf (insert dv (insert ai {}))))) \<union> A) \<union> B \<union> C)))))) \<union> L
   = A \<union> B \<union> C \<union> {ai, dv, pf, na, ra, nu, nd} \<union> {fi, pt, rt} \<union> {ma, mi, r} \<union> L"
  by blast

lemma numpy_ops_init_result:
  assumes "numpy_ops_init w = Inr st"
  shows defined: "n \<in> defined_names \<Longrightarrow> globals st n = Some (Function n)"
    and late: "n \<in> late_imports \<Longrightarrow> globals st n = module_attr w (submodule ''np_utils'') n"
    and math: "n \<in> star_names w ''np_math_ops'' \<Longrightarrow> n \<notin> late_imports \<union> defined_names \<Longrightarrow>
                 globals st n = module_attr w (submodule ''np_math_ops'') n"
    and rest: "n \<notin> star_names w ''np_math_ops'' \<union> late_imports \<union> defined_names \<Longrightarrow>
      settled st n
        (if n \<in> star_names w ''np_dtypes'' then module_attr w (submodule ''np_dtypes'') n
         else if n = ''ndarray'' then module_attr w (submodule ''np_arrays'') ''ndarray''
         else if n \<in> star_names w ''np_array_ops'' then module_attr w (submodule ''np_array_ops'') n
         else if n = ''np_utils'' then Some (Module (submodule ''np_utils''))
         else if n = ''random'' then Some (Module (submodule ''np_random''))
         else if n = ''newaxis'' then module_attr w ''tensorflow.python.ops.array_ops'' ''newaxis''
         else if n \<in> {''absolute_import'', ''division'', ''print_function''}
           then module_attr w ''__future__'' n
         else None)"
    and names: "dom (globals st) =
        star_names w ''np_array_ops'' \<union> star_names w ''np_dtypes'' \<union> star_names w ''np_math_ops''
        \<union> early_imports \<union> late_imports \<union> defined_names \<union> loaded st"
    and submodules: "{''np_random'', ''np_utils'', ''np_array_ops'', ''np_arrays'', ''np_dtypes'',
                      ''np_math_ops''} \<subseteq> loaded st"
    and exist: "\<forall>x \<in> loaded st. w (submodule x) \<noteq> None"
    and found: "module_attr w ''__future__'' ''absolute_import'' \<noteq> None"
      "module_attr w ''__future__'' ''division'' \<noteq> None"
      "module_attr w ''__future__'' ''print_function'' \<noteq> None"
      "module_attr w ''tensorflow.python.ops.array_ops'' ''newaxis'' \<noteq> None"
      "module_attr w (submodule ''np_arrays'') ''ndarray'' \<noteq> None"
      "\<forall>n \<in> late_imports. module_attr w (submodule ''np_utils'') n \<noteq> None"
      "\<forall>n \<in> star_names w ''np_array_ops''. module_attr w (submodule ''np_array_ops'') n \<noteq> None"
      "\<forall>n \<in> star_names w ''np_dtypes''. module_attr w (submodule ''np_dtypes'') n \<noteq> None"
      "\<forall>n \<in> star_names w ''np_math_ops''. module_attr w (submodule ''np_math_ops'') n \<noteq> None"
    and utils: "\<exists>m. globals st ''np_utils'' = Some (Module m)"
proof -
  let ?s0 = "\<lparr>globals = Map.empty, loaded = {}\<rparr>"
  from assms obtain s1 s2 s3 s4 s5 s6 s7 s8 s9 s10 s11 s12 s13 s14 s15
    v1 v2 v3 v4 v8 v11 v12 v13 where
    a: "module_attr w ''__future__'' ''absolute_import'' = Some v1"
    "module_attr w ''__future__'' ''division'' = Some v2"
    "module_attr w ''__future__'' ''print_function'' = Some v3"
    "module_attr w ''tensorflow.python.ops.array_ops'' ''newaxis'' = Some v4"
    "module_attr w (submodule ''np_arrays'') ''ndarray'' = Some v8"
    "module_attr w (submodule ''np_utils'') ''finfo'' = Some v11"
    "module_attr w (submodule ''np_utils'') ''promote_types'' = Some v12"
    "module_attr w (submodule ''np_utils'') ''result_type'' = Some v13"
    and b1: "binds w [''absolute_import'' \<mapsto> v1] ?s0 s1"
    and b2: "binds w [''division'' \<mapsto> v2] s1 s2"
    and b3: "binds w [''print_function'' \<mapsto> v3] s2 s3"
    and b4: "binds w [''newaxis'' \<mapsto> v4] s3 s4"
    and b5: "binds w [''random'' \<mapsto> Module (submodule ''np_random'')] s4 s5"
    and b6: "binds w [''np_utils'' \<mapsto> Module (submodule ''np_utils'')] s5 s6"
    and b7: "binds w (\<lambda>n. if n \<in> star_names w ''np_array_ops''
                   then module_attr w (submodule ''np_array_ops'') n else None) s6 s7"
    and b8: "binds w [''ndarray'' \<mapsto> v8] s7 s8"
    and b9: "binds w (\<lambda>n. if n \<in> star_names w ''np_dtypes''
                   then module_attr w (submodule ''np_dtypes'') n else None) s8 s9"
    and b10: "binds w (\<lambda>n. if n \<in> star_names w ''np_math_ops''
                   then module_attr w (submodule ''np_math_ops'') n else None) s9 s10"
    and b11: "binds w [''finfo'' \<mapsto> v11] s10 s11"
    and b12: "binds w [''promote_types'' \<mapsto> v12] s11 s12"
    and b13: "binds w [''result_type'' \<mapsto> v13] s12 s13"
    and b14: "binds w [''max'' \<mapsto> Function ''max''] s13 s14"
    and b15: "binds w [''min'' \<mapsto> Function ''min''] s14 s15"
    and b16: "binds w [''round'' \<mapsto> Function ''round''] s15 st"
    and six: "{''np_random'', ''np_utils'', ''np_array_ops'', ''np_arrays'', ''np_dtypes'',
               ''np_math_ops''} \<subseteq> loaded s10"
    and L: "loaded s11 = loaded s10" "loaded s12 = loaded s10" "loaded s13 = loaded s10"
      "loaded s14 = loaded s10" "loaded s15 = loaded s10" "loaded st = loaded s10"
    and star: "\<forall>n \<in> star_names w ''np_array_ops''. module_attr w (submodule ''np_array_ops'') n \<noteq> None"
      "\<forall>n \<in> star_names w ''np_dtypes''. module_attr w (submodule ''np_dtypes'') n \<noteq> None"
      "\<forall>n \<in> star_names w ''np_math_ops''. module_attr w (submodule ''np_math_ops'') n \<noteq> None"
    and u13: "\<exists>m. globals s13 ''np_utils'' = Some (Module m)"
    by (rule numpy_ops_init_trace)
  text \<open>After the last wildcard import nothing is loaded: the statements only bind.\<close>
  have tail: "globals st n =
      (if n = ''round'' then Some (Function ''round'')
       else if n = ''min'' then Some (Function ''min'')
       else if n = ''max'' then Some (Function ''max'')
       else if n = ''result_type'' then Some v13
       else if n = ''promote_types'' then Some v12
       else if n = ''finfo'' then Some v11
       else globals s10 n)" for n
    using binds_same_loaded[OF b16, of n] binds_same_loaded[OF b15, of n]
      binds_same_loaded[OF b14, of n] binds_same_loaded[OF b13, of n]
      binds_same_loaded[OF b12, of n] binds_same_loaded[OF b11, of n] L
    by simp
  show "n \<in> defined_names \<Longrightarrow> globals st n = Some (Function n)"
    by (auto simp: tail defined_names_def)
  show "n \<in> late_imports \<Longrightarrow> globals st n = module_attr w (submodule ''np_utils'') n"
    by (auto simp: tail late_imports_def a)
  show "n \<in> star_names w ''np_math_ops'' \<Longrightarrow> n \<notin> late_imports \<union> defined_names \<Longrightarrow>
          globals st n = module_attr w (submodule ''np_math_ops'') n"
  proof -
    assume 1: "n \<in> star_names w ''np_math_ops''" and 2: "n \<notin> late_imports \<union> defined_names"
    from 1 star(3) obtain v where v: "module_attr w (submodule ''np_math_ops'') n = Some v" by auto
    have "globals s10 n = Some v"
      by (rule binds_bound[OF b10]) (simp add: 1 v)
    with 2 show ?thesis
      by (simp add: tail v late_imports_def defined_names_def)
  qed
  show "n \<notin> star_names w ''np_math_ops'' \<union> late_imports \<union> defined_names \<Longrightarrow>
      settled st n
        (if n \<in> star_names w ''np_dtypes'' then module_attr w (submodule ''np_dtypes'') n
         else if n = ''ndarray'' then module_attr w (submodule ''np_arrays'') ''ndarray''
         else if n \<in> star_names w ''np_array_ops'' then module_attr w (submodule ''np_array_ops'') n
         else if n = ''np_utils'' then Some (Module (submodule ''np_utils''))
         else if n = ''random'' then Some (Module (submodule ''np_random''))
         else if n = ''newaxis'' then module_attr w ''tensorflow.python.ops.array_ops'' ''newaxis''
         else if n \<in> {''absolute_import'', ''division'', ''print_function''}
           then module_attr w ''__future__'' n
         else None)"
  proof -
    assume 1: "n \<notin> star_names w ''np_math_ops'' \<union> late_imports \<union> defined_names"
    have t0: "settled ?s0 n None" by (simp add: settled_def)
    note t10 = binds_settled_star[OF b10 star(3) binds_settled_star[OF b9 star(2)
          binds_settled_one[OF b8 binds_settled_star[OF b7 star(1)
          binds_settled_one[OF b6 binds_settled_one[OF b5 binds_settled_one[OF b4
          binds_settled_one[OF b3 binds_settled_one[OF b2 binds_settled_one[OF b1 t0]]]]]]]]]]
    have g: "globals st n = globals s10 n"
      using 1 by (simp add: tail late_imports_def defined_names_def)
    have eq: "(if n \<in> star_names w ''np_math_ops'' then module_attr w (submodule ''np_math_ops'') n
         else if n \<in> star_names w ''np_dtypes'' then module_attr w (submodule ''np_dtypes'') n
         else if n = ''ndarray'' then Some v8
         else if n \<in> star_names w ''np_array_ops'' then module_attr w (submodule ''np_array_ops'') n
         else if n = ''np_utils'' then Some (Module (submodule ''np_utils''))
         else if n = ''random'' then Some (Module (submodule ''np_random''))
         else if n = ''newaxis'' then Some v4
         else if n = ''print_function'' then Some v3
         else if n = ''division'' then Some v2
         else if n = ''absolute_import'' then Some v1
         else None) =
        (if n \<in> star_names w ''np_dtypes'' then module_attr w (submodule ''np_dtypes'') n
         else if n = ''ndarray'' then module_attr w (submodule ''np_arrays'') ''ndarray''
         else if n \<in> star_names w ''np_array_ops'' then module_attr w (submodule ''np_array_ops'') n
         else if n = ''np_utils'' then Some (Module (submodule ''np_utils''))
         else if n = ''random'' then Some (Module (submodule ''np_random''))
         else if n = ''newaxis'' then module_attr w ''tensorflow.python.ops.array_ops'' ''newaxis''
         else if n \<in> {''absolute_import'', ''division'', ''print_function''}
           then module_attr w ''__future__'' n
         else None)"
      using 1 by (simp add: a)
    have "settled s10 n
        (if n \<in> star_names w ''np_dtypes'' then module_attr w (submodule ''np_dtypes'') n
         else if n = ''ndarray'' then module_attr w (submodule ''np_arrays'') ''ndarray''
         else if n \<in> star_names w ''np_array_ops'' then module_attr w (submodule ''np_array_ops'') n
         else if n = ''np_utils'' then Some (Module (submodule ''np_utils''))
         else if n = ''random'' then Some (Module (submodule ''np_random''))
         else if n = ''newaxis'' then module_attr w ''tensorflow.python.ops.array_ops'' ''newaxis''
         else if n \<in> {''absolute_import'', ''division'', ''print_function''}
           then module_attr w ''__future__'' n
         else None)"
      using t10 unfolding eq .
    then show ?thesis
      unfolding settled_def g L by simp
  qed
  show "dom (globals st) =
        star_names w ''np_array_ops'' \<union> star_names w ''np_dtypes'' \<union> star_names w ''np_math_ops''
        \<union> early_imports \<union> late_imports \<union> defined_names \<union> loaded st"
  proof -
    have d0: "dom (globals ?s0) = {} \<union> loaded ?s0" by simp
    note d1 = binds_dom_one[OF b6 binds_dom_one[OF b5 binds_dom_one[OF b4 binds_dom_one[OF b3
        binds_dom_one[OF b2 binds_dom_one[OF b1 d0]]]]]]
    note d2 = binds_dom_star[OF b10 star(3) binds_dom_star[OF b9 star(2)
        binds_dom_one[OF b8 binds_dom_star[OF b7 star(1) d1]]]]
    note d3 = binds_dom_one[OF b16 binds_dom_one[OF b15 binds_dom_one[OF b14
        binds_dom_one[OF b13 binds_dom_one[OF b12 binds_dom_one[OF b11 d2]]]]]]
    show ?thesis
      unfolding d3 early_imports_def late_imports_def defined_names_def
      by (rule names_rearrange)
  qed
  show "{''np_random'', ''np_utils'', ''np_array_ops'', ''np_arrays'', ''np_dtypes'',
         ''np_math_ops''} \<subseteq> loaded st"
    using six L by simp
  show "\<forall>x \<in> loaded st. w (submodule x) \<noteq> None"
  proof -
    have e0: "\<forall>x \<in> loaded ?s0. w (submodule x) \<noteq> None" by simp
    show ?thesis
      by (rule binds_loaded_exist[OF b16 binds_loaded_exist[OF b15 binds_loaded_exist[OF b14
          binds_loaded_exist[OF b13 binds_loaded_exist[OF b12 binds_loaded_exist[OF b11
          binds_loaded_exist[OF b10 binds_loaded_exist[OF b9 binds_loaded_exist[OF b8
          binds_loaded_exist[OF b7 binds_loaded_exist[OF b6 binds_loaded_exist[OF b5
          binds_loaded_exist[OF b4 binds_loaded_exist[OF b3 binds_loaded_exist[OF b2
          binds_loaded_exist[OF b1 e0]]]]]]]]]]]]]]]])
  qed
  show "module_attr w ''__future__'' ''absolute_import'' \<noteq> None"
    "module_attr w ''__future__'' ''division'' \<noteq> None"
    "module_attr w ''__future__'' ''print_function'' \<noteq> None"
    "module_attr w ''tensorflow.python.ops.array_ops'' ''newaxis'' \<noteq> None"
    "module_attr w (submodule ''np_arrays'') ''ndarray'' \<noteq> None"
    "\<forall>n \<in> late_imports. module_attr w (submodule ''np_utils'') n \<noteq> None"
    by (simp_all add: a late_imports_def)
  show "\<forall>n \<in> star_names w ''np_array_ops''. module_attr w (submodule ''np_array_ops'') n \<noteq> None"
    "\<forall>n \<in> star_names w ''np_dtypes''. module_attr w (submodule ''np_dtypes'') n \<noteq> None"
    "\<forall>n \<in> star_names w ''np_math_ops''. module_attr w (submodule ''np_math_ops'') n \<noteq> None"
    by (rule star)+
  show "\<exists>m. globals st ''np_utils'' = Some (Module m)"
  proof -
    have "globals st ''np_utils'' = globals s13 ''np_utils''"
      using binds_same_loaded[OF b16, of "''np_utils''"] binds_same_loaded[OF b15, of "''np_utils''"]
        binds_same_loaded[OF b14, of "''np_utils''"] L
      by simp
    with u13 show ?thesis by simp
  qed
qed

lemma load_children_ok:
  "list_all (\<lambda>x. w (submodule x) \<noteq> None) xs \<Longrightarrow> \<exists>st'. load_children w xs st = Inr st'"
proof (induction xs arbitrary: st)
  case Nil
  then show ?case by simp
next
  case (Cons x xs)
  from Cons.prems have "\<exists>st1. load_child w x st = Inr st1"
    by (auto simp: load_child_def)
  then obtain st1 where 1: "load_child w x st = Inr st1" ..
  from Cons.prems have "list_all (\<lambda>x. w (submodule x) \<noteq> None) xs" by simp
  from Cons.IH[OF this, of st1] 1 show ?case by (simp add: then_do_def)
qed

lemma import_module_ok:
  "has_module w m \<Longrightarrow> \<exists>st'. import_module w m st = Inr st'"
  by (auto simp: has_module_def import_module_def split: option.splits intro: load_children_ok)

lemma import_child_ok:
  assumes "has_module w (submodule c)"
  shows "\<exists>st'. import_child w c st = Inr st'"
proof -
  from assms obtain md where 1: "w (submodule c) = Some md"
    and 2: "list_all (\<lambda>x. w (submodule x) \<noteq> None) (loads md)"
    by (auto simp: has_module_def split: option.splits)
  from load_children_ok[OF 2] obtain st1 where 3: "load_children w (loads md) st = Inr st1"
    by blast
  have "\<exists>st'. load_child w c st1 = Inr st'"
    using 1 by (simp add: load_child_def)
  with 1 3 show ?thesis
    by (auto simp: import_child_def then_do_def)
qed

lemma from_import_ok:
  assumes "has_module w m" and "module_attr w m x \<noteq> None"
  shows "\<exists>st'. from_import w m x y st = Inr st'"
  using import_module_ok[OF assms(1), of st] assms(2)
  by (auto simp: from_import_def then_do_def bind_attr_def)

lemma from_child_import_ok:
  assumes "has_module w (submodule c)" and "module_attr w (submodule c) x \<noteq> None"
  shows "\<exists>st'. from_child_import w c x y st = Inr st'"
  using import_child_ok[OF assms(1), of st] assms(2)
  by (auto simp: from_child_import_def then_do_def bind_attr_def)

lemma import_submodule_ok:
  assumes "has_module w (submodule x)"
  shows "\<exists>st'. import_submodule w x y st = Inr st'"
  using import_child_ok[OF assms, of st]
  by (auto simp: import_submodule_def then_do_def split: option.splits)

lemma bind_names_ok:
  "list_all (\<lambda>x. map_of (attrs md) x \<noteq> None) xs \<Longrightarrow> \<exists>st'. bind_names md xs st = Inr st'"
  by (induction xs arbitrary: st) auto

lemma import_star_ok:
  assumes "has_module w (submodule c)" and "star_importable w c"
  shows "\<exists>st'. import_star w c st = Inr st'"
proof -
  from import_child_ok[OF assms(1)] obtain st1 where 1: "import_child w c st = Inr st1"
    by blast
  from assms(2) obtain md where 2: "w (submodule c) = Some md"
    and 3: "list_all (\<lambda>x. map_of (attrs md) x \<noteq> None) (public_names md)"
    by (auto simp: star_importable_def split: option.splits)
  from bind_names_ok[OF 3] obtain st' where "bind_names md (public_names md) st1 = Inr st'"
    by blast
  with 1 2 show ?thesis by (auto simp: import_star_def then_do_def)
qed

lemma def_alias_ok:
  assumes "globals st ''np_utils'' = Some (Module m)"
    and "module_attr w m ''np_doc'' \<noteq> None" and "module_attr w m ''AliasOf'' \<noteq> None"
  shows "\<exists>st'. def_alias w name st = Inr st'"
  using assms by (auto simp: def_alias_def)

lemma star_importable_utils:
  assumes "star_importable w c"
  shows "(if ''np_utils'' \<in> star_names w c then module_attr w (submodule c) ''np_utils'' else None)
           = None
         \<or> (if ''np_utils'' \<in> star_names w c then module_attr w (submodule c) ''np_utils'' else None)
           = Some (Module (submodule ''np_utils''))"
  using assms
  by (auto simp: star_importable_def star_names_def module_attr_def list_all_iff
      split: option.splits)

text \<open>From an importable world the import succeeds.\<close>

lemma importable_init:
  assumes "importable w"
  shows "\<exists>st. numpy_ops_init w = Inr st"
proof -
  let ?s0 = "\<lparr>globals = Map.empty, loaded = {}\<rparr>"
  from assms have m: "has_module w ''__future__''" "has_module w ''tensorflow.python.ops.array_ops''"
    "has_module w (submodule ''np_random'')" "has_module w (submodule ''np_utils'')"
    "has_module w (submodule ''np_array_ops'')" "has_module w (submodule ''np_arrays'')"
    "has_module w (submodule ''np_dtypes'')" "has_module w (submodule ''np_math_ops'')"
    and a: "module_attr w ''__future__'' ''absolute_import'' \<noteq> None"
    "module_attr w ''__future__'' ''division'' \<noteq> None"
    "module_attr w ''__future__'' ''print_function'' \<noteq> None"
    "module_attr w ''tensorflow.python.ops.array_ops'' ''newaxis'' \<noteq> None"
    "module_attr w (submodule ''np_arrays'') ''ndarray'' \<noteq> None"
    "module_attr w (submodule ''np_utils'') ''np_doc'' \<noteq> None"
    "module_attr w (submodule ''np_utils'') ''AliasOf'' \<noteq> None"
    "module_attr w (submodule ''np_utils'') ''finfo'' \<noteq> None"
    "module_attr w (submodule ''np_utils'') ''promote_types'' \<noteq> None"
    "module_attr w (submodule ''np_utils'') ''result_type'' \<noteq> None"
    and s: "star_importable w ''np_array_ops''" "star_importable w ''np_dtypes''"
    "star_importable w ''np_math_ops''"
    by (simp_all add: importable_def has_attrs_def)
  from from_import_ok[OF m(1) a(1)] obtain s1 where
    e1: "from_import w ''__future__'' ''absolute_import'' ''absolute_import'' ?s0 = Inr s1" by blast
  from from_import_ok[OF m(1) a(2)] obtain s2 where
    e2: "from_import w ''__future__'' ''division'' ''division'' s1 = Inr s2" by blast
  from from_import_ok[OF m(1) a(3)] obtain s3 where
    e3: "from_import w ''__future__'' ''print_function'' ''print_function'' s2 = Inr s3" by blast
  from from_import_ok[OF m(2) a(4)] obtain s4 where
    e4: "from_import w ''tensorflow.python.ops.array_ops'' ''newaxis'' ''newaxis'' s3 = Inr s4"
    by blast
  from import_submodule_ok[OF m(3)] obtain s5 where
    e5: "import_submodule w ''np_random'' ''random'' s4 = Inr s5" by blast
  from import_submodule_ok[OF m(4)] obtain s6 where
    e6: "import_submodule w ''np_utils'' ''np_utils'' s5 = Inr s6" by blast
  from import_star_ok[OF m(5) s(1)] obtain s7 where
    e7: "import_star w ''np_array_ops'' s6 = Inr s7" by blast
  from from_child_import_ok[OF m(6) a(5)] obtain s8 where
    e8: "from_child_import w ''np_arrays'' ''ndarray'' ''ndarray'' s7 = Inr s8" by blast
  from import_star_ok[OF m(7) s(2)] obtain s9 where
    e9: "import_star w ''np_dtypes'' s8 = Inr s9" by blast
  from import_star_ok[OF m(8) s(3)] obtain s10 where
    e10: "import_star w ''np_math_ops'' s9 = Inr s10" by blast
  from from_child_import_ok[OF m(4) a(8)] obtain s11 where
    e11: "from_child_import w ''np_utils'' ''finfo'' ''finfo'' s10 = Inr s11" by blast
  from from_child_import_ok[OF m(4) a(9)] obtain s12 where
    e12: "from_child_import w ''np_utils'' ''promote_types'' ''promote_types'' s11 = Inr s12"
    by blast
  from from_child_import_ok[OF m(4) a(10)] obtain s13 where
    e13: "from_child_import w ''np_utils'' ''result_type'' ''result_type'' s12 = Inr s13"
    by blast
  text \<open>The decorators find \<open>np_utils\<close>: it is the module, from the sixth statement on.\<close>
  from e1 obtain v1 where b1: "binds w [''absolute_import'' \<mapsto> v1] ?s0 s1"
    by (rule from_import_binds)
  from e2 obtain v2 where b2: "binds w [''division'' \<mapsto> v2] s1 s2"
    by (rule from_import_binds)
  from e3 obtain v3 where b3: "binds w [''print_function'' \<mapsto> v3] s2 s3"
    by (rule from_import_binds)
  from e4 obtain v4 where b4: "binds w [''newaxis'' \<mapsto> v4] s3 s4"
    by (rule from_import_binds)
  have f0: "fresh ?s0 x" for x by (simp add: fresh_def)
  have f4: "fresh s4 ''np_random''"
    using binds_fresh[OF b4 _ binds_fresh[OF b3 _ binds_fresh[OF b2 _ binds_fresh[OF b1 _ f0]]]]
    by simp
  have g4: "fresh s4 ''np_utils''"
    using binds_fresh[OF b4 _ binds_fresh[OF b3 _ binds_fresh[OF b2 _ binds_fresh[OF b1 _ f0]]]]
    by simp
  note b5 = import_submodule_binds(1)[OF e5 f4]
  have g5: "fresh s5 ''np_utils''"
    using binds_fresh[OF b5 _ g4] by simp
  note b6 = import_submodule_binds(1)[OF e6 g5]
  have u6: "globals s6 ''np_utils'' = Some (Module (submodule ''np_utils''))"
    by (rule binds_bound[OF b6]) simp
  have u7: "globals s7 ''np_utils'' = Some (Module (submodule ''np_utils''))"
    by (rule binds_keeps_module[OF import_star_binds(1)[OF e7] u6 star_importable_utils[OF s(1)]])
  from e8 obtain v8 where b8: "binds w [''ndarray'' \<mapsto> v8] s7 s8"
    by (rule from_child_import_binds)
  have u8: "globals s8 ''np_utils'' = Some (Module (submodule ''np_utils''))"
    by (rule binds_keeps_module[OF b8 u7]) simp
  have u9: "globals s9 ''np_utils'' = Some (Module (submodule ''np_utils''))"
    by (rule binds_keeps_module[OF import_star_binds(1)[OF e9] u8 star_importable_utils[OF s(2)]])
  have u10: "globals s10 ''np_utils'' = Some (Module (submodule ''np_utils''))"
    by (rule binds_keeps_module[OF import_star_binds(1)[OF e10] u9 star_importable_utils[OF s(3)]])
  from e11 obtain v11 where b11: "binds w [''finfo'' \<mapsto> v11] s10 s11"
    by (rule from_child_import_binds)
  have u11: "globals s11 ''np_utils'' = Some (Module (submodule ''np_utils''))"
    by (rule binds_keeps_module[OF b11 u10]) simp
  from e12 obtain v12 where b12: "binds w [''promote_types'' \<mapsto> v12] s11 s12"
    by (rule from_child_import_binds)
  have u12: "globals s12 ''np_utils'' = Some (Module (submodule ''np_utils''))"
    by (rule binds_keeps_module[OF b12 u11]) simp
  from e13 obtain v13 where b13: "binds w [''result_type'' \<mapsto> v13] s12 s13"
    by (rule from_child_import_binds)
  have u13: "globals s13 ''np_utils'' = Some (Module (submodule ''np_utils''))"
    by (rule binds_keeps_module[OF b13 u12]) simp
  from def_alias_ok[OF u13 a(6) a(7)] obtain s14 where
    e14: "def_alias w ''max'' s13 = Inr s14" by blast
  have u14: "globals s14 ''np_utils'' = Some (Module (submodule ''np_utils''))"
    by (rule binds_keeps_module[OF def_alias_binds(1)[OF e14] u13]) simp
  from def_alias_ok[OF u14 a(6) a(7)] obtain s15 where
    e15: "def_alias w ''min'' s14 = Inr s15" by blast
  have u15: "globals s15 ''np_utils'' = Some (Module (submodule ''np_utils''))"
    by (rule binds_keeps_module[OF def_alias_binds(1)[OF e15] u14]) simp
  from def_alias_ok[OF u15 a(6) a(7)] obtain s16 where
    e16: "def_alias w ''round'' s15 = Inr s16" by blast
  have "numpy_ops_init w = Inr s16"
    unfolding numpy_ops_init_def foldl.simps
    by (simp only: e1 e2 e3 e4 e5 e6 e7 e8 e9 e10 e11 e12 e13 e14 e15 e16 then_do_def sum.case)
  then show ?thesis ..
qed

lemmas world_eval = importable_def has_module_def has_attrs_def star_importable_def module_attr_def
  star_names_def submodule_def numpy_ops_def public_names_def is_private_def

lemma example_world_importable: "importable example_world"
  by (simp add: world_eval example_world_def)

lemma shadow_world_importable: "importable shadow_world"
  by (simp add: world_eval example_world_def shadow_world_def)

lemma example_star_names:
  "star_names example_world ''np_array_ops''
     = {''division'', ''np_utils'', ''zeros'', ''amax'', ''amin'', ''around''}"
  "star_names example_world ''np_dtypes'' = {''float32'', ''int64''}"
  "star_names example_world ''np_math_ops'' = {''np_utils'', ''add'', ''maximum''}"
  by (simp_all add: world_eval example_world_def)

lemma shadow_star_names:
  "star_names shadow_world ''np_math_ops''
     = {''ndarray'', ''newaxis'', ''random'', ''add'', ''maximum''}"
  by (simp add: world_eval example_world_def shadow_world_def)

lemma example_submodules:
  "example_world (submodule x) \<noteq> None \<longleftrightarrow>
     x \<in> {''np_export'', ''np_random'', ''np_utils'', ''np_array_ops'', ''np_arrays'', ''np_dtypes'',
          ''np_math_ops''}"
  by (auto simp: example_world_def submodule_def numpy_ops_def)

lemma example_loaded:
  "\<exists>st. numpy_ops_init example_world = Inr st
     \<and> loaded st = {''np_export'', ''np_random'', ''np_utils'', ''np_array_ops'', ''np_arrays'',
                     ''np_dtypes'', ''np_math_ops''}"
  by (simp add: numpy_ops_init_def then_do_def from_import_def import_module_def
      import_submodule_def import_child_def load_child_def bind_attr_def from_child_import_def
      import_star_def def_alias_def world_eval example_world_def insert_commute)

lemma exposed_init: "numpy_ops_init w = Inr st \<Longrightarrow> exposed w = globals st"
  by (simp add: exposed_def)

lemma settled_same:
  "settled st n S \<Longrightarrow> n \<in> loaded st \<longrightarrow> S = Some (Module (submodule n)) \<Longrightarrow> globals st n = S"
  by (auto simp: settled_def)

lemma example_attrs:
  "module_attr example_world (submodule ''np_utils'') ''finfo'' = Some (Obj UtilityFunction 32)"
  "module_attr example_world (submodule ''np_utils'') ''promote_types'' = Some (Obj UtilityFunction 33)"
  "module_attr example_world (submodule ''np_utils'') ''result_type'' = Some (Obj UtilityFunction 34)"
  "module_attr example_world (submodule ''np_math_ops'') ''add'' = Some (Obj MathOperation 70)"
  "module_attr example_world (submodule ''np_math_ops'') ''np_utils''
     = Some (Module ''tensorflow.python.ops.numpy_ops.np_utils'')"
  "module_attr example_world (submodule ''np_dtypes'') ''float32'' = Some (Obj DType 60)"
  "module_attr example_world (submodule ''np_arrays'') ''ndarray'' = Some (Obj Class 50)"
  "module_attr example_world (submodule ''np_array_ops'') ''amax'' = Some (Obj ArrayFunction 41)"
  "module_attr example_world ''tensorflow.python.ops.array_ops'' ''newaxis'' = Some (Obj Constant 10)"
  by (simp_all add: module_attr_def example_world_def submodule_def numpy_ops_def)

lemma example_not_submodules:
  "example_world (submodule ''float32'') = None"
  "example_world (submodule ''ndarray'') = None"
  "example_world (submodule ''amax'') = None"
  "example_world (submodule ''random'') = None"
  "example_world (submodule ''newaxis'') = None"
  by (simp_all add: example_world_def submodule_def numpy_ops_def)

lemma not_loaded:
  "\<forall>x \<in> loaded st. w (submodule x) \<noteq> None \<Longrightarrow> w (submodule n) = None \<Longrightarrow> n \<notin> loaded st"
  by blast

lemma loaded_bound:
  assumes "dom (globals st) = D \<union> loaded st" and "n \<in> loaded st"
  shows "globals st n \<noteq> None"
proof -
  from assms have "n \<in> dom (globals st)" by blast
  then show ?thesis by (simp only: domIff not_False_eq_True)
qed

text \<open>
  Whatever the sibling modules are, the name \<open>np_utils\<close> stands for a module after the
  import: the decorators of the three \<open>def\<close>s have taken its attributes.
\<close>

lemma np_utils_always_exposed:
  assumes "numpy_ops_init w = Inr st"
  shows "\<exists>m. exposed w ''np_utils'' = Some (Module m) \<and> \<not> spec_lists ''np_utils'' (Module m)"
  using numpy_ops_init_result(17)[OF assms]
  by (auto simp: exposed_init[OF assms] spec_lists_def)

lemma names_regroup:
  "A \<union> B \<union> C \<union> {ai, dv, pf, na, ra, nu, nd} \<union> {fi, pt, rt} \<union> {ma, mi, r} \<union> L
   = A \<union> B \<union> C \<union> {ra, fi, pt, rt, ma, mi, r} \<union> {na, nd, nu, ai, dv, pf} \<union> L"
  by blast

section \<open>The claims about the alias functions\<close>

text \<open>
  Claim C1. Whenever a call of \<open>max\<close> supplies \<open>a\<close>, \<open>axis\<close> and \<open>keepdims\<close>
  (positionally, by keyword, or mixed), its value and the state it leaves are exactly
  those of \<open>amax(a, axis=axis, keepdims=keepdims)\<close> run in the same state: the three
  values are forwarded as they are.
\<close>

theorem max_equals_amax:
  assumes "supplies c [(''a'', a), (''axis'', axis), (''keepdims'', keepdims)]"
  shows "max_alias amax c s =
           amax \<lparr>args = [a], kwargs = [(''axis'', axis), (''keepdims'', keepdims)]\<rparr> s"
  using assms by (rule max_alias_supplied)

theorem max_equals_amax_witness:
  "supplies \<lparr>args = [PyRef 1, PyInt 0], kwargs = [(''keepdims'', PyBool True)]\<rparr>
     [(''a'', PyRef 1), (''axis'', PyInt 0), (''keepdims'', PyBool True)]
   \<and> max_alias (\<lambda>c s. (Inr (PySeq (args c @ map snd (kwargs c))), Suc s))
       \<lparr>args = [PyRef 1, PyInt 0], kwargs = [(''keepdims'', PyBool True)]\<rparr> (0::nat)
     = (Inr (PySeq [PyRef 1, PyInt 0, PyBool True]), 1)"
proof -
  have h: "supplies \<lparr>args = [PyRef 1, PyInt 0], kwargs = [(''keepdims'', PyBool True)]\<rparr>
     [(''a'', PyRef 1), (''axis'', PyInt 0), (''keepdims'', PyBool True)]"
    by (simp add: supplies_def upt_rec)
  show ?thesis
    using h max_equals_amax[OF h, of "\<lambda>c s. (Inr (PySeq (args c @ map snd (kwargs c))), Suc s)" "0::nat"]
    by simp
qed

text \<open>
  Claim C2. Whenever a call of \<open>min\<close> supplies \<open>a\<close>, \<open>axis\<close> and \<open>keepdims\<close>, its
  value and the state it leaves are exactly those of
  \<open>amin(a, axis=axis, keepdims=keepdims)\<close> run in the same state.
\<close>

theorem min_equals_amin:
  assumes "supplies c [(''a'', a), (''axis'', axis), (''keepdims'', keepdims)]"
  shows "min_alias amin c s =
           amin \<lparr>args = [a], kwargs = [(''axis'', axis), (''keepdims'', keepdims)]\<rparr> s"
  using assms by (rule min_alias_supplied)

theorem min_equals_amin_witness:
  "supplies \<lparr>args = [PyRef 1], kwargs = [(''keepdims'', PyBool False), (''axis'', PyInt 1)]\<rparr>
     [(''a'', PyRef 1), (''axis'', PyInt 1), (''keepdims'', PyBool False)]
   \<and> min_alias (\<lambda>c s. (Inr (PySeq (args c @ map snd (kwargs c))), Suc s))
       \<lparr>args = [PyRef 1], kwargs = [(''keepdims'', PyBool False), (''axis'', PyInt 1)]\<rparr> (0::nat)
     = (Inr (PySeq [PyRef 1, PyInt 1, PyBool False]), 1)"
proof -
  have h: "supplies \<lparr>args = [PyRef 1], kwargs = [(''keepdims'', PyBool False), (''axis'', PyInt 1)]\<rparr>
     [(''a'', PyRef 1), (''axis'', PyInt 1), (''keepdims'', PyBool False)]"
    by (simp add: supplies_def upt_rec insert_commute)
  show ?thesis
    using h min_equals_amin[OF h, of "\<lambda>c s. (Inr (PySeq (args c @ map snd (kwargs c))), Suc s)" "0::nat"]
    by simp
qed

text \<open>
  Claim C3. A call of \<open>round\<close> that supplies \<open>a\<close> and \<open>decimals\<close> gives exactly the
  outcome of \<open>around(a, decimals=decimals)\<close>; a call that supplies only \<open>a\<close> gives
  the outcome of \<open>around(a, decimals=0)\<close>.
\<close>

theorem round_equals_around:
  "(supplies c [(''a'', a), (''decimals'', decimals)] \<longrightarrow>
      round_alias around c s = around \<lparr>args = [a], kwargs = [(''decimals'', decimals)]\<rparr> s)
   \<and> (supplies c [(''a'', a)] \<longrightarrow>
      round_alias around c s = around \<lparr>args = [a], kwargs = [(''decimals'', PyInt 0)]\<rparr> s)"
  by (simp add: round_alias_supplied round_alias_default)

theorem round_equals_around_witness:
  "supplies \<lparr>args = [PyRef 1, PyInt 2], kwargs = []\<rparr> [(''a'', PyRef 1), (''decimals'', PyInt 2)]
   \<and> round_alias (\<lambda>c s. (Inr (PySeq (args c @ map snd (kwargs c))), Suc s))
       \<lparr>args = [PyRef 1, PyInt 2], kwargs = []\<rparr> (0::nat)
     = (Inr (PySeq [PyRef 1, PyInt 2]), 1)
   \<and> supplies \<lparr>args = [PyRef 1], kwargs = []\<rparr> [(''a'', PyRef 1)]
   \<and> round_alias (\<lambda>c s. (Inr (PySeq (args c @ map snd (kwargs c))), Suc s))
       \<lparr>args = [PyRef 1], kwargs = []\<rparr> (0::nat)
     = (Inr (PySeq [PyRef 1, PyInt 0]), 1)"
proof -
  have h1: "supplies \<lparr>args = [PyRef 1, PyInt 2], kwargs = []\<rparr> [(''a'', PyRef 1), (''decimals'', PyInt 2)]"
    by (simp add: supplies_def upt_rec)
  have h2: "supplies \<lparr>args = [PyRef 1], kwargs = []\<rparr> [(''a'', PyRef 1)]"
    by (simp add: supplies_def upt_rec)
  show ?thesis
    using h1 h2
      round_equals_around[of "\<lparr>args = [PyRef 1, PyInt 2], kwargs = []\<rparr>" "PyRef 1" "PyInt 2"
        "\<lambda>c s. (Inr (PySeq (args c @ map snd (kwargs c))), Suc s)" "0::nat"]
      round_equals_around[of "\<lparr>args = [PyRef 1], kwargs = []\<rparr>" "PyRef 1" "PyInt 2"
        "\<lambda>c s. (Inr (PySeq (args c @ map snd (kwargs c))), Suc s)" "0::nat"]
    by simp
qed

text \<open>
  Claim C4, as stated: an alias raises an error only where its delegate raises it.
  With a delegate that never raises, \<open>max(x, out=None)\<close>, \<open>min()\<close> and
  \<open>round(x, 2, y)\<close> still raise \<open>TypeError\<close>: the signature of the alias has no such
  parameter and Python rejects the call before the delegate is reached.
\<close>

theorem alias_raises_without_delegate:
  "fst (max_alias never_raises \<lparr>args = [PyRef 1], kwargs = [(''out'', PyNone)]\<rparr> 0) = Inl TypeError
   \<and> fst (never_raises \<lparr>args = [PyRef 1], kwargs = [(''out'', PyNone)]\<rparr> 0) = Inr PyNone
   \<and> fst (min_alias never_raises \<lparr>args = [], kwargs = []\<rparr> 0) = Inl TypeError
   \<and> fst (never_raises \<lparr>args = [], kwargs = []\<rparr> 0) = Inr PyNone
   \<and> fst (round_alias never_raises \<lparr>args = [PyRef 1, PyInt 2, PyRef 3], kwargs = []\<rparr> 0)
       = Inl TypeError
   \<and> fst (never_raises \<lparr>args = [PyRef 1, PyInt 2, PyRef 3], kwargs = []\<rparr> 0) = Inr PyNone"
  by (simp add: max_alias_def min_alias_def round_alias_def np_doc_def bind_args_def
      never_raises_def)

text \<open>
  Claim C4, amended. An alias raises an error in exactly two cases. Either Python's
  argument binding rejects the call, and the error is \<open>TypeError\<close>; or the call binds
  values \<open>a\<close>, \<open>axis\<close>, \<open>keepdims\<close> (for \<open>round\<close>: \<open>a\<close>, \<open>decimals\<close>), supplied or
  defaulted, and the delegate raises on these forwarded values, and then the alias
  raises exactly the delegate's error. In particular, on a call that supplies every
  parameter the alias raises \<open>e\<close> exactly when the delegate raises \<open>e\<close>.
\<close>

theorem alias_errors:
  "(fst (max_alias amax c s) = Inl e \<longleftrightarrow>
     (bind_args [(''a'', None), (''axis'', Some PyNone), (''keepdims'', Some PyNone)] c = Inl TypeError
        \<and> e = TypeError)
     \<or> (\<exists>env a axis keepdims.
          bind_args [(''a'', None), (''axis'', Some PyNone), (''keepdims'', Some PyNone)] c = Inr env
          \<and> env ''a'' = Some a \<and> env ''axis'' = Some axis \<and> env ''keepdims'' = Some keepdims
          \<and> fst (amax \<lparr>args = [a], kwargs = [(''axis'', axis), (''keepdims'', keepdims)]\<rparr> s) = Inl e))
   \<and> (fst (min_alias amin c s) = Inl e \<longleftrightarrow>
     (bind_args [(''a'', None), (''axis'', Some PyNone), (''keepdims'', Some PyNone)] c = Inl TypeError
        \<and> e = TypeError)
     \<or> (\<exists>env a axis keepdims.
          bind_args [(''a'', None), (''axis'', Some PyNone), (''keepdims'', Some PyNone)] c = Inr env
          \<and> env ''a'' = Some a \<and> env ''axis'' = Some axis \<and> env ''keepdims'' = Some keepdims
          \<and> fst (amin \<lparr>args = [a], kwargs = [(''axis'', axis), (''keepdims'', keepdims)]\<rparr> s) = Inl e))
   \<and> (fst (round_alias around c s) = Inl e \<longleftrightarrow>
     (bind_args [(''a'', None), (''decimals'', Some (PyInt 0))] c = Inl TypeError \<and> e = TypeError)
     \<or> (\<exists>env a decimals.
          bind_args [(''a'', None), (''decimals'', Some (PyInt 0))] c = Inr env
          \<and> env ''a'' = Some a \<and> env ''decimals'' = Some decimals
          \<and> fst (around \<lparr>args = [a], kwargs = [(''decimals'', decimals)]\<rparr> s) = Inl e))
   \<and> (supplies c [(''a'', a), (''axis'', axis), (''keepdims'', keepdims)] \<longrightarrow>
      (fst (max_alias amax c s) = Inl e
         \<longleftrightarrow> fst (amax \<lparr>args = [a], kwargs = [(''axis'', axis), (''keepdims'', keepdims)]\<rparr> s) = Inl e)
      \<and> (fst (min_alias amin c s) = Inl e
         \<longleftrightarrow> fst (amin \<lparr>args = [a], kwargs = [(''axis'', axis), (''keepdims'', keepdims)]\<rparr> s) = Inl e))
   \<and> (supplies c [(''a'', a), (''decimals'', decimals)] \<longrightarrow>
      (fst (round_alias around c s) = Inl e
         \<longleftrightarrow> fst (around \<lparr>args = [a], kwargs = [(''decimals'', decimals)]\<rparr> s) = Inl e))"
  by (intro conjI impI max_alias_raises min_alias_raises round_alias_raises)
     (simp_all add: max_alias_supplied min_alias_supplied round_alias_supplied)

theorem alias_errors_witness:
  "fst (max_alias (\<lambda>c s. (Inl ValueError, s)) \<lparr>args = [PyRef 1], kwargs = []\<rparr> (0::nat))
     = Inl ValueError
   \<and> fst (min_alias never_raises \<lparr>args = [PyRef 1], kwargs = [(''out'', PyNone)]\<rparr> 0)
     = Inl TypeError
   \<and> supplies \<lparr>args = [PyRef 1, PyInt 2], kwargs = []\<rparr> [(''a'', PyRef 1), (''decimals'', PyInt 2)]
   \<and> fst (round_alias (\<lambda>c s. (Inl ValueError, s)) \<lparr>args = [PyRef 1, PyInt 2], kwargs = []\<rparr>
          (0::nat)) = Inl ValueError"
proof -
  have h: "supplies \<lparr>args = [PyRef 1, PyInt 2], kwargs = []\<rparr>
             [(''a'', PyRef 1), (''decimals'', PyInt 2)]"
    by (simp add: supplies_def upt_rec)
  have 1: "fst (max_alias (\<lambda>c s. (Inl ValueError, s)) \<lparr>args = [PyRef 1], kwargs = []\<rparr> (0::nat))
             = Inl ValueError"
    using alias_errors[of "\<lambda>c s. (Inl ValueError, s)" "\<lparr>args = [PyRef 1], kwargs = []\<rparr>"
        "0::nat" ValueError never_raises never_raises "PyRef 1" PyNone PyNone PyNone]
    by (simp add: bind_args_def)
  have 2: "fst (min_alias never_raises \<lparr>args = [PyRef 1], kwargs = [(''out'', PyNone)]\<rparr> 0)
             = Inl TypeError"
    using alias_errors[of never_raises "\<lparr>args = [PyRef 1], kwargs = [(''out'', PyNone)]\<rparr>"
        "0::nat" TypeError never_raises never_raises "PyRef 1" PyNone PyNone PyNone]
    by (simp add: bind_args_def)
  have 3: "fst (round_alias (\<lambda>c s. (Inl ValueError, s)) \<lparr>args = [PyRef 1, PyInt 2], kwargs = []\<rparr>
             (0::nat)) = Inl ValueError"
    using h alias_errors[of never_raises "\<lparr>args = [PyRef 1, PyInt 2], kwargs = []\<rparr>"
        "0::nat" ValueError never_raises "\<lambda>c s. (Inl ValueError, s)" "PyRef 1" PyNone PyNone
        "PyInt 2"]
    by simp
  from 1 2 h 3 show ?thesis by (intro conjI)
qed



text \<open>
  Claim C8. A parameter \<open>axis\<close> or \<open>keepdims\<close> that a call of \<open>max\<close> or \<open>min\<close> leaves
  out is forwarded as \<open>None\<close>: \<open>max(a)\<close> is \<open>amax(a, axis=None, keepdims=None)\<close>, and
  likewise when only one of the two is left out.
\<close>

theorem omitted_parameters_default_to_None:
  "max_alias amax \<lparr>args = [a], kwargs = []\<rparr> s
     = amax \<lparr>args = [a], kwargs = [(''axis'', PyNone), (''keepdims'', PyNone)]\<rparr> s
   \<and> max_alias amax \<lparr>args = [a, axis], kwargs = []\<rparr> s
     = amax \<lparr>args = [a], kwargs = [(''axis'', axis), (''keepdims'', PyNone)]\<rparr> s
   \<and> max_alias amax \<lparr>args = [a], kwargs = [(''axis'', axis)]\<rparr> s
     = amax \<lparr>args = [a], kwargs = [(''axis'', axis), (''keepdims'', PyNone)]\<rparr> s
   \<and> max_alias amax \<lparr>args = [a], kwargs = [(''keepdims'', keepdims)]\<rparr> s
     = amax \<lparr>args = [a], kwargs = [(''axis'', PyNone), (''keepdims'', keepdims)]\<rparr> s
   \<and> min_alias amin \<lparr>args = [a], kwargs = []\<rparr> s
     = amin \<lparr>args = [a], kwargs = [(''axis'', PyNone), (''keepdims'', PyNone)]\<rparr> s
   \<and> min_alias amin \<lparr>args = [a, axis], kwargs = []\<rparr> s
     = amin \<lparr>args = [a], kwargs = [(''axis'', axis), (''keepdims'', PyNone)]\<rparr> s
   \<and> min_alias amin \<lparr>args = [a], kwargs = [(''axis'', axis)]\<rparr> s
     = amin \<lparr>args = [a], kwargs = [(''axis'', axis), (''keepdims'', PyNone)]\<rparr> s
   \<and> min_alias amin \<lparr>args = [a], kwargs = [(''keepdims'', keepdims)]\<rparr> s
     = amin \<lparr>args = [a], kwargs = [(''axis'', PyNone), (''keepdims'', keepdims)]\<rparr> s"
  by (simp add: max_alias_def min_alias_def np_doc_def bind_args_def)

theorem omitted_parameters_default_to_None_witness:
  "max_alias (\<lambda>c s. (Inr (PySeq (args c @ map snd (kwargs c))), Suc s))
       \<lparr>args = [PyRef 1], kwargs = []\<rparr> (0::nat)
     = (Inr (PySeq [PyRef 1, PyNone, PyNone]), 1)
   \<and> min_alias (\<lambda>c s. (Inr (PySeq (args c @ map snd (kwargs c))), Suc s))
       \<lparr>args = [PyRef 1], kwargs = []\<rparr> (0::nat)
     = (Inr (PySeq [PyRef 1, PyNone, PyNone]), 1)"
  using omitted_parameters_default_to_None[of
      "\<lambda>c s. (Inr (PySeq (args c @ map snd (kwargs c))), Suc s)" "PyRef 1" "0::nat" PyNone PyNone
      "\<lambda>c s. (Inr (PySeq (args c @ map snd (kwargs c))), Suc s)"]
  by simp

text \<open>
  Claim C9. A call of \<open>max\<close> or \<open>min\<close> with more than three positional arguments or
  with a keyword other than \<open>a\<close>, \<open>axis\<close>, \<open>keepdims\<close>, and a call of \<open>round\<close> with
  more than two positional arguments or with a keyword other than \<open>a\<close>, \<open>decimals\<close>,
  raises \<open>TypeError\<close> and leaves the state as it was, whatever the delegate is: the
  delegate is not called.
\<close>

theorem extra_arguments_rejected:
  "((3 < length (args c) \<or> (\<exists>k \<in> fst ` set (kwargs c). k \<notin> {''a'', ''axis'', ''keepdims''})) \<longrightarrow>
      max_alias amax c s = (Inl TypeError, s) \<and> min_alias amin c s = (Inl TypeError, s))
   \<and> ((2 < length (args c) \<or> (\<exists>k \<in> fst ` set (kwargs c). k \<notin> {''a'', ''decimals''})) \<longrightarrow>
      round_alias around c s = (Inl TypeError, s))"
  using max_alias_rejects[of c amax s] min_alias_rejects[of c amin s]
    round_alias_rejects[of c around s]
  by blast

theorem extra_arguments_rejected_witness:
  "max_alias (\<lambda>c s. (Inr PyNone, Suc s))
       \<lparr>args = [PyRef 1], kwargs = [(''out'', PyRef 2)]\<rparr> (0::nat) = (Inl TypeError, 0)
   \<and> min_alias (\<lambda>c s. (Inr PyNone, Suc s))
       \<lparr>args = [PyRef 1], kwargs = [(''out'', PyRef 2)]\<rparr> (0::nat) = (Inl TypeError, 0)
   \<and> round_alias (\<lambda>c s. (Inr PyNone, Suc s))
       \<lparr>args = [PyRef 1], kwargs = [(''out'', PyRef 2)]\<rparr> (0::nat) = (Inl TypeError, 0)"
  using extra_arguments_rejected[of "\<lparr>args = [PyRef 1], kwargs = [(''out'', PyRef 2)]\<rparr>"
      "\<lambda>c s. (Inr PyNone, Suc s)" "0::nat" "\<lambda>c s. (Inr PyNone, Suc s)" "\<lambda>c s. (Inr PyNone, Suc s)"]
  by simp

text \<open>
  Claim C10. Two calls of an alias that supply the same arguments, made in any two
  states, return equal results whenever the delegate returns equal results on these
  arguments in the two states: the alias adds no dependence on the state.
\<close>

theorem alias_deterministic:
  "(supplies c1 [(''a'', a), (''axis'', axis), (''keepdims'', keepdims)]
      \<and> supplies c2 [(''a'', a), (''axis'', axis), (''keepdims'', keepdims)] \<longrightarrow>
      (fst (amax \<lparr>args = [a], kwargs = [(''axis'', axis), (''keepdims'', keepdims)]\<rparr> s1)
         = fst (amax \<lparr>args = [a], kwargs = [(''axis'', axis), (''keepdims'', keepdims)]\<rparr> s2)
       \<longrightarrow> fst (max_alias amax c1 s1) = fst (max_alias amax c2 s2))
      \<and> (fst (amin \<lparr>args = [a], kwargs = [(''axis'', axis), (''keepdims'', keepdims)]\<rparr> s1)
         = fst (amin \<lparr>args = [a], kwargs = [(''axis'', axis), (''keepdims'', keepdims)]\<rparr> s2)
       \<longrightarrow> fst (min_alias amin c1 s1) = fst (min_alias amin c2 s2)))
   \<and> (supplies c1 [(''a'', a), (''decimals'', decimals)]
      \<and> supplies c2 [(''a'', a), (''decimals'', decimals)] \<longrightarrow>
      fst (around \<lparr>args = [a], kwargs = [(''decimals'', decimals)]\<rparr> s1)
         = fst (around \<lparr>args = [a], kwargs = [(''decimals'', decimals)]\<rparr> s2)
       \<longrightarrow> fst (round_alias around c1 s1) = fst (round_alias around c2 s2))"
  by (auto simp: max_alias_supplied[where a = a and axis = axis and keepdims = keepdims]
      min_alias_supplied[where a = a and axis = axis and keepdims = keepdims]
      round_alias_supplied[where a = a and decimals = decimals])

theorem alias_deterministic_witness:
  "fst (max_alias (\<lambda>c s. (Inr (PySeq (args c)), Suc s))
          \<lparr>args = [PyRef 1, PyInt 0, PyNone], kwargs = []\<rparr> (3::nat))
     = fst (max_alias (\<lambda>c s. (Inr (PySeq (args c)), Suc s))
          \<lparr>args = [PyRef 1], kwargs = [(''keepdims'', PyNone), (''axis'', PyInt 0)]\<rparr> 8)
   \<and> fst (min_alias (\<lambda>c s. (Inr (PySeq (args c)), Suc s))
          \<lparr>args = [PyRef 1, PyInt 0, PyNone], kwargs = []\<rparr> (3::nat))
     = fst (min_alias (\<lambda>c s. (Inr (PySeq (args c)), Suc s))
          \<lparr>args = [PyRef 1], kwargs = [(''keepdims'', PyNone), (''axis'', PyInt 0)]\<rparr> 8)
   \<and> fst (round_alias (\<lambda>c s. (Inr (PySeq (args c)), Suc s))
          \<lparr>args = [PyRef 1, PyInt 2], kwargs = []\<rparr> (3::nat))
     = fst (round_alias (\<lambda>c s. (Inr (PySeq (args c)), Suc s))
          \<lparr>args = [PyRef 1], kwargs = [(''decimals'', PyInt 2)]\<rparr> 8)"
proof -
  have h1: "supplies \<lparr>args = [PyRef 1, PyInt 0, PyNone], kwargs = []\<rparr>
              [(''a'', PyRef 1), (''axis'', PyInt 0), (''keepdims'', PyNone)]"
    by (simp add: supplies_def upt_rec)
  have h2: "supplies \<lparr>args = [PyRef 1], kwargs = [(''keepdims'', PyNone), (''axis'', PyInt 0)]\<rparr>
              [(''a'', PyRef 1), (''axis'', PyInt 0), (''keepdims'', PyNone)]"
    by (simp add: supplies_def upt_rec insert_commute)
  have h3: "supplies \<lparr>args = [PyRef 1, PyInt 2], kwargs = []\<rparr>
              [(''a'', PyRef 1), (''decimals'', PyInt 2)]"
    by (simp add: supplies_def upt_rec)
  have h4: "supplies \<lparr>args = [PyRef 1], kwargs = [(''decimals'', PyInt 2)]\<rparr>
              [(''a'', PyRef 1), (''decimals'', PyInt 2)]"
    by (simp add: supplies_def upt_rec)
  show ?thesis
    using h1 h2 h3 h4
      alias_deterministic[of "\<lparr>args = [PyRef 1, PyInt 0, PyNone], kwargs = []\<rparr>"
        "PyRef 1" "PyInt 0" PyNone
        "\<lparr>args = [PyRef 1], kwargs = [(''keepdims'', PyNone), (''axis'', PyInt 0)]\<rparr>"
        "\<lambda>c s. (Inr (PySeq (args c)), Suc s)" "3::nat" 8
        "\<lambda>c s. (Inr (PySeq (args c)), Suc s)" "PyInt 2" "\<lambda>c s. (Inr (PySeq (args c)), Suc s)"]
      alias_deterministic[of "\<lparr>args = [PyRef 1, PyInt 2], kwargs = []\<rparr>"
        "PyRef 1" "PyInt 0" PyNone
        "\<lparr>args = [PyRef 1], kwargs = [(''decimals'', PyInt 2)]\<rparr>"
        "\<lambda>c s. (Inr (PySeq (args c)), Suc s)" "3::nat" 8
        "\<lambda>c s. (Inr (PySeq (args c)), Suc s)" "PyInt 2" "\<lambda>c s. (Inr (PySeq (args c)), Suc s)"]
    by simp
qed

section \<open>The claims about the namespace\<close>

text \<open>
  Claim C6, as stated: every re-exported name, \<open>newaxis\<close>, \<open>random\<close> and \<open>ndarray\<close>
  among them, is the object that its source module defines. Where \<open>np_math_ops\<close> binds
  these three names itself, its wildcard import comes later in the file and rebinds
  them: the package then exposes the objects of \<open>np_math_ops\<close>, not those of
  \<open>np_arrays\<close>, \<open>array_ops\<close> and the package.
\<close>

theorem reexport_shadowed:
  "exposed shadow_world ''ndarray'' = Some (Obj Class 97)
   \<and> module_attr shadow_world (submodule ''np_arrays'') ''ndarray'' = Some (Obj Class 50)
   \<and> exposed shadow_world ''newaxis'' = Some (Obj Constant 98)
   \<and> module_attr shadow_world ''tensorflow.python.ops.array_ops'' ''newaxis'' = Some (Obj Constant 10)
   \<and> exposed shadow_world ''random'' = Some (Obj UtilityFunction 99)"
proof -
  from importable_init[OF shadow_world_importable]
  obtain st where ok: "numpy_ops_init shadow_world = Inr st" ..
  note m = numpy_ops_init_result(3)[OF ok]
  have 1: "globals st ''ndarray'' = Some (Obj Class 97)"
    using m[of "''ndarray''"]
    by (simp add: shadow_star_names late_imports_def defined_names_def)
       (simp add: module_attr_def shadow_world_def submodule_def numpy_ops_def)
  have 2: "globals st ''newaxis'' = Some (Obj Constant 98)"
    using m[of "''newaxis''"]
    by (simp add: shadow_star_names late_imports_def defined_names_def)
       (simp add: module_attr_def shadow_world_def submodule_def numpy_ops_def)
  have 3: "globals st ''random'' = Some (Obj UtilityFunction 99)"
    using m[of "''random''"]
    by (simp add: shadow_star_names late_imports_def defined_names_def)
       (simp add: module_attr_def shadow_world_def submodule_def numpy_ops_def)
  have 4: "module_attr shadow_world (submodule ''np_arrays'') ''ndarray'' = Some (Obj Class 50)"
    "module_attr shadow_world ''tensorflow.python.ops.array_ops'' ''newaxis'' = Some (Obj Constant 10)"
    by (simp_all add: module_attr_def shadow_world_def example_world_def submodule_def numpy_ops_def)
  from 1 2 3 4 show ?thesis
    by (simp add: exposed_init[OF ok])
qed

text \<open>
  Claim C6, amended. From every importable world the import succeeds and every imported
  name is accessible. A name stands for the identical object that the module it is
  imported from binds to it (neither a copy nor a wrapper), provided that no later
  statement of the file binds the same name and that the import system has not bound
  the name, as the name of a loaded submodule of the package, to another object:
  \<^item> \<open>finfo\<close>, \<open>promote_types\<close>, \<open>result_type\<close>: always;
  \<^item> a name of the wildcard import of \<open>np_math_ops\<close>: unless it is one of these three or
    \<open>max\<close>, \<open>min\<close>, \<open>round\<close>;
  \<^item> a name of the wildcard import of \<open>np_dtypes\<close>, \<open>ndarray\<close>, a name of the wildcard
    import of \<open>np_array_ops\<close>, \<open>random\<close> and \<open>newaxis\<close>: unless a later wildcard
    import, a later explicit import or a \<open>def\<close> binds the name, or the name is that of a
    loaded submodule which is not the object itself.
\<close>

theorem reexports_identity:
  assumes "importable w"
  shows "\<exists>st. numpy_ops_init w = Inr st
    \<and> (\<forall>x \<in> loaded st. w (submodule x) \<noteq> None)
    \<and> (\<forall>n \<in> star_names w ''np_array_ops'' \<union> star_names w ''np_dtypes''
              \<union> star_names w ''np_math_ops'' \<union> early_imports \<union> late_imports.
          globals st n \<noteq> None)
    \<and> (\<forall>n \<in> late_imports. globals st n = module_attr w (submodule ''np_utils'') n)
    \<and> (\<forall>n \<in> star_names w ''np_math_ops''.
          n \<notin> late_imports \<union> defined_names \<longrightarrow>
          globals st n = module_attr w (submodule ''np_math_ops'') n)
    \<and> (\<forall>n \<in> star_names w ''np_dtypes''.
          n \<notin> star_names w ''np_math_ops'' \<union> late_imports \<union> defined_names
          \<and> (n \<in> loaded st \<longrightarrow>
                module_attr w (submodule ''np_dtypes'') n = Some (Module (submodule n))) \<longrightarrow>
          globals st n = module_attr w (submodule ''np_dtypes'') n)
    \<and> (''ndarray'' \<notin> star_names w ''np_dtypes'' \<union> star_names w ''np_math_ops''
          \<and> (''ndarray'' \<in> loaded st \<longrightarrow>
                module_attr w (submodule ''np_arrays'') ''ndarray''
                  = Some (Module (submodule ''ndarray''))) \<longrightarrow>
          globals st ''ndarray'' = module_attr w (submodule ''np_arrays'') ''ndarray'')
    \<and> (\<forall>n \<in> star_names w ''np_array_ops''.
          n \<notin> {''ndarray''} \<union> star_names w ''np_dtypes'' \<union> star_names w ''np_math_ops''
                \<union> late_imports \<union> defined_names
          \<and> (n \<in> loaded st \<longrightarrow>
                module_attr w (submodule ''np_array_ops'') n = Some (Module (submodule n))) \<longrightarrow>
          globals st n = module_attr w (submodule ''np_array_ops'') n)
    \<and> (''random'' \<notin> star_names w ''np_array_ops'' \<union> star_names w ''np_dtypes''
                      \<union> star_names w ''np_math_ops'' \<union> loaded st \<longrightarrow>
          globals st ''random'' = Some (Module (submodule ''np_random'')))
    \<and> (''newaxis'' \<notin> star_names w ''np_array_ops'' \<union> star_names w ''np_dtypes''
                       \<union> star_names w ''np_math_ops''
          \<and> (''newaxis'' \<in> loaded st \<longrightarrow>
                module_attr w ''tensorflow.python.ops.array_ops'' ''newaxis''
                  = Some (Module (submodule ''newaxis''))) \<longrightarrow>
          globals st ''newaxis'' = module_attr w ''tensorflow.python.ops.array_ops'' ''newaxis'')"
proof -
  from importable_init[OF assms] obtain st where ok: "numpy_ops_init w = Inr st" ..
  note r = numpy_ops_init_result[OF ok]
  have ex: "\<forall>x \<in> loaded st. w (submodule x) \<noteq> None" by (rule r(7))
  have acc: "\<forall>n \<in> star_names w ''np_array_ops'' \<union> star_names w ''np_dtypes''
              \<union> star_names w ''np_math_ops'' \<union> early_imports \<union> late_imports.
          globals st n \<noteq> None"
  proof
    fix n
    assume "n \<in> star_names w ''np_array_ops'' \<union> star_names w ''np_dtypes''
              \<union> star_names w ''np_math_ops'' \<union> early_imports \<union> late_imports"
    then have "n \<in> dom (globals st)" unfolding r(5) by blast
    then show "globals st n \<noteq> None" by (simp only: domIff not_False_eq_True)
  qed
  have 1: "\<forall>n \<in> late_imports. globals st n = module_attr w (submodule ''np_utils'') n"
    using r(2) by blast
  have 2: "\<forall>n \<in> star_names w ''np_math_ops''.
          n \<notin> late_imports \<union> defined_names \<longrightarrow>
          globals st n = module_attr w (submodule ''np_math_ops'') n"
    using r(3) by blast
  have 3: "\<forall>n \<in> star_names w ''np_dtypes''.
          n \<notin> star_names w ''np_math_ops'' \<union> late_imports \<union> defined_names
          \<and> (n \<in> loaded st \<longrightarrow>
                module_attr w (submodule ''np_dtypes'') n = Some (Module (submodule n))) \<longrightarrow>
          globals st n = module_attr w (submodule ''np_dtypes'') n"
  proof (intro ballI impI)
    fix n
    assume a: "n \<in> star_names w ''np_dtypes''"
      and b: "n \<notin> star_names w ''np_math_ops'' \<union> late_imports \<union> defined_names
          \<and> (n \<in> loaded st \<longrightarrow>
                module_attr w (submodule ''np_dtypes'') n = Some (Module (submodule n)))"
    from b have c: "n \<notin> star_names w ''np_math_ops'' \<union> late_imports \<union> defined_names" by simp
    show "globals st n = module_attr w (submodule ''np_dtypes'') n"
      using settled_same[OF r(4)[OF c]] a b by simp
  qed
  have 4: "''ndarray'' \<notin> star_names w ''np_dtypes'' \<union> star_names w ''np_math_ops''
          \<and> (''ndarray'' \<in> loaded st \<longrightarrow>
                module_attr w (submodule ''np_arrays'') ''ndarray''
                  = Some (Module (submodule ''ndarray''))) \<longrightarrow>
          globals st ''ndarray'' = module_attr w (submodule ''np_arrays'') ''ndarray''"
  proof
    assume b: "''ndarray'' \<notin> star_names w ''np_dtypes'' \<union> star_names w ''np_math_ops''
          \<and> (''ndarray'' \<in> loaded st \<longrightarrow>
                module_attr w (submodule ''np_arrays'') ''ndarray''
                  = Some (Module (submodule ''ndarray'')))"
    then have c: "''ndarray'' \<notin> star_names w ''np_math_ops'' \<union> late_imports \<union> defined_names"
      by (simp add: late_imports_def defined_names_def)
    show "globals st ''ndarray'' = module_attr w (submodule ''np_arrays'') ''ndarray''"
      using settled_same[OF r(4)[OF c]] b by simp
  qed
  have 5: "\<forall>n \<in> star_names w ''np_array_ops''.
          n \<notin> {''ndarray''} \<union> star_names w ''np_dtypes'' \<union> star_names w ''np_math_ops''
                \<union> late_imports \<union> defined_names
          \<and> (n \<in> loaded st \<longrightarrow>
                module_attr w (submodule ''np_array_ops'') n = Some (Module (submodule n))) \<longrightarrow>
          globals st n = module_attr w (submodule ''np_array_ops'') n"
  proof (intro ballI impI)
    fix n
    assume a: "n \<in> star_names w ''np_array_ops''"
      and b: "n \<notin> {''ndarray''} \<union> star_names w ''np_dtypes'' \<union> star_names w ''np_math_ops''
                \<union> late_imports \<union> defined_names
          \<and> (n \<in> loaded st \<longrightarrow>
                module_attr w (submodule ''np_array_ops'') n = Some (Module (submodule n)))"
    from b have c: "n \<notin> star_names w ''np_math_ops'' \<union> late_imports \<union> defined_names" by simp
    show "globals st n = module_attr w (submodule ''np_array_ops'') n"
      using settled_same[OF r(4)[OF c]] a b by simp
  qed
  have 6: "''random'' \<notin> star_names w ''np_array_ops'' \<union> star_names w ''np_dtypes''
                      \<union> star_names w ''np_math_ops'' \<union> loaded st \<longrightarrow>
          globals st ''random'' = Some (Module (submodule ''np_random''))"
  proof
    assume b: "''random'' \<notin> star_names w ''np_array_ops'' \<union> star_names w ''np_dtypes''
                      \<union> star_names w ''np_math_ops'' \<union> loaded st"
    then have c: "''random'' \<notin> star_names w ''np_math_ops'' \<union> late_imports \<union> defined_names"
      by (simp add: late_imports_def defined_names_def)
    show "globals st ''random'' = Some (Module (submodule ''np_random''))"
      using settled_same[OF r(4)[OF c]] b by simp
  qed
  have 7: "''newaxis'' \<notin> star_names w ''np_array_ops'' \<union> star_names w ''np_dtypes''
                       \<union> star_names w ''np_math_ops''
          \<and> (''newaxis'' \<in> loaded st \<longrightarrow>
                module_attr w ''tensorflow.python.ops.array_ops'' ''newaxis''
                  = Some (Module (submodule ''newaxis''))) \<longrightarrow>
          globals st ''newaxis'' = module_attr w ''tensorflow.python.ops.array_ops'' ''newaxis''"
  proof
    assume b: "''newaxis'' \<notin> star_names w ''np_array_ops'' \<union> star_names w ''np_dtypes''
                       \<union> star_names w ''np_math_ops''
          \<and> (''newaxis'' \<in> loaded st \<longrightarrow>
                module_attr w ''tensorflow.python.ops.array_ops'' ''newaxis''
                  = Some (Module (submodule ''newaxis'')))"
    then have c: "''newaxis'' \<notin> star_names w ''np_math_ops'' \<union> late_imports \<union> defined_names"
      by (simp add: late_imports_def defined_names_def)
    show "globals st ''newaxis'' = module_attr w ''tensorflow.python.ops.array_ops'' ''newaxis''"
      using settled_same[OF r(4)[OF c]] b by simp
  qed
  from ok ex acc 1 2 3 4 5 6 7 show ?thesis by (intro exI[of _ st] conjI)
qed

theorem reexports_identity_witness:
  "importable example_world
   \<and> exposed example_world ''finfo'' = Some (Obj UtilityFunction 32)
   \<and> exposed example_world ''promote_types'' = Some (Obj UtilityFunction 33)
   \<and> exposed example_world ''result_type'' = Some (Obj UtilityFunction 34)
   \<and> exposed example_world ''add'' = Some (Obj MathOperation 70)
   \<and> exposed example_world ''float32'' = Some (Obj DType 60)
   \<and> exposed example_world ''ndarray'' = Some (Obj Class 50)
   \<and> exposed example_world ''amax'' = Some (Obj ArrayFunction 41)
   \<and> exposed example_world ''random'' = Some (Module (submodule ''np_random''))
   \<and> exposed example_world ''newaxis'' = Some (Obj Constant 10)"
  using reexports_identity[OF example_world_importable]
proof (elim exE conjE)
  fix st
  assume ok: "numpy_ops_init example_world = Inr st"
    and ex: "\<forall>x \<in> loaded st. example_world (submodule x) \<noteq> None"
    and acc: "\<forall>n \<in> star_names example_world ''np_array_ops'' \<union> star_names example_world ''np_dtypes''
              \<union> star_names example_world ''np_math_ops'' \<union> early_imports \<union> late_imports.
          globals st n \<noteq> None"
    and 1: "\<forall>n \<in> late_imports. globals st n = module_attr example_world (submodule ''np_utils'') n"
    and 2: "\<forall>n \<in> star_names example_world ''np_math_ops''.
          n \<notin> late_imports \<union> defined_names \<longrightarrow>
          globals st n = module_attr example_world (submodule ''np_math_ops'') n"
    and 3: "\<forall>n \<in> star_names example_world ''np_dtypes''.
          n \<notin> star_names example_world ''np_math_ops'' \<union> late_imports \<union> defined_names
          \<and> (n \<in> loaded st \<longrightarrow>
                module_attr example_world (submodule ''np_dtypes'') n = Some (Module (submodule n))) \<longrightarrow>
          globals st n = module_attr example_world (submodule ''np_dtypes'') n"
    and 4: "''ndarray'' \<notin> star_names example_world ''np_dtypes'' \<union> star_names example_world ''np_math_ops''
          \<and> (''ndarray'' \<in> loaded st \<longrightarrow>
                module_attr example_world (submodule ''np_arrays'') ''ndarray''
                  = Some (Module (submodule ''ndarray''))) \<longrightarrow>
          globals st ''ndarray'' = module_attr example_world (submodule ''np_arrays'') ''ndarray''"
    and 5: "\<forall>n \<in> star_names example_world ''np_array_ops''.
          n \<notin> {''ndarray''} \<union> star_names example_world ''np_dtypes''
                \<union> star_names example_world ''np_math_ops'' \<union> late_imports \<union> defined_names
          \<and> (n \<in> loaded st \<longrightarrow>
                module_attr example_world (submodule ''np_array_ops'') n = Some (Module (submodule n))) \<longrightarrow>
          globals st n = module_attr example_world (submodule ''np_array_ops'') n"
    and 6: "''random'' \<notin> star_names example_world ''np_array_ops'' \<union> star_names example_world ''np_dtypes''
                      \<union> star_names example_world ''np_math_ops'' \<union> loaded st \<longrightarrow>
          globals st ''random'' = Some (Module (submodule ''np_random''))"
    and 7: "''newaxis'' \<notin> star_names example_world ''np_array_ops'' \<union> star_names example_world ''np_dtypes''
                       \<union> star_names example_world ''np_math_ops''
          \<and> (''newaxis'' \<in> loaded st \<longrightarrow>
                module_attr example_world ''tensorflow.python.ops.array_ops'' ''newaxis''
                  = Some (Module (submodule ''newaxis''))) \<longrightarrow>
          globals st ''newaxis'' = module_attr example_world ''tensorflow.python.ops.array_ops'' ''newaxis''"
  note nl = not_loaded[OF ex example_not_submodules(1)] not_loaded[OF ex example_not_submodules(2)]
    not_loaded[OF ex example_not_submodules(3)] not_loaded[OF ex example_not_submodules(4)]
    not_loaded[OF ex example_not_submodules(5)]
  have "globals st ''finfo'' = Some (Obj UtilityFunction 32)"
    "globals st ''promote_types'' = Some (Obj UtilityFunction 33)"
    "globals st ''result_type'' = Some (Obj UtilityFunction 34)"
    using 1 by (simp_all add: late_imports_def example_attrs)
  moreover have "globals st ''add'' = Some (Obj MathOperation 70)"
    using 2 by (simp add: example_star_names late_imports_def defined_names_def example_attrs)
  moreover have "globals st ''float32'' = Some (Obj DType 60)"
    using 3 nl by (simp add: example_star_names late_imports_def defined_names_def example_attrs)
  moreover have "globals st ''ndarray'' = Some (Obj Class 50)"
    using 4 nl by (simp add: example_star_names example_attrs)
  moreover have "globals st ''amax'' = Some (Obj ArrayFunction 41)"
    using 5 nl by (simp add: example_star_names late_imports_def defined_names_def example_attrs)
  moreover have "globals st ''random'' = Some (Module (submodule ''np_random''))"
    using 6 nl by (simp add: example_star_names)
  moreover have "globals st ''newaxis'' = Some (Obj Constant 10)"
    using 7 nl by (simp add: example_star_names example_attrs)
  ultimately show ?thesis
    using example_world_importable by (simp add: exposed_init[OF ok])
qed

text \<open>
  Claim C7, as stated: every name that the module exposes is an array function, a
  dtype, a math operation, the random submodule, one of \<open>finfo\<close>, \<open>promote_types\<close>,
  \<open>result_type\<close>, or one of the three aliases. The module also exposes \<open>np_utils\<close> and
  \<open>np_dtypes\<close>, which are modules, and the constant \<open>newaxis\<close>; by
  \<open>np_utils_always_exposed\<close> the first of them is there whatever the sibling modules
  are.
\<close>

theorem unlisted_names_exposed:
  "exposed example_world ''np_utils'' = Some (Module ''tensorflow.python.ops.numpy_ops.np_utils'')
   \<and> \<not> spec_lists ''np_utils'' (Module ''tensorflow.python.ops.numpy_ops.np_utils'')
   \<and> exposed example_world ''np_dtypes'' = Some (Module ''tensorflow.python.ops.numpy_ops.np_dtypes'')
   \<and> \<not> spec_lists ''np_dtypes'' (Module ''tensorflow.python.ops.numpy_ops.np_dtypes'')
   \<and> exposed example_world ''newaxis'' = Some (Obj Constant 10)
   \<and> \<not> spec_lists ''newaxis'' (Obj Constant 10)"
proof -
  from importable_init[OF example_world_importable]
  obtain st where ok: "numpy_ops_init example_world = Inr st" ..
  note r = numpy_ops_init_result[OF ok]
  have 1: "globals st ''np_utils'' = Some (Module ''tensorflow.python.ops.numpy_ops.np_utils'')"
    using r(3)[of "''np_utils''"]
    by (simp add: example_star_names late_imports_def defined_names_def example_attrs)
  have ld: "''np_dtypes'' \<in> loaded st" using r(6) by simp
  moreover have "globals st ''np_dtypes'' \<noteq> None"
    by (rule loaded_bound[OF r(5) ld])
  moreover have "settled st ''np_dtypes'' None"
    using r(4)[of "''np_dtypes''"]
    by (simp add: example_star_names late_imports_def defined_names_def)
  ultimately have 2: "globals st ''np_dtypes'' = Some (Module (submodule ''np_dtypes''))"
    by (auto simp: settled_def)
  note nl = not_loaded[OF r(7) example_not_submodules(5)]
  have "settled st ''newaxis'' (Some (Obj Constant 10))"
    using r(4)[of "''newaxis''"]
    by (simp add: example_star_names late_imports_def defined_names_def example_attrs)
  with nl have 3: "globals st ''newaxis'' = Some (Obj Constant 10)"
    by (simp add: settled_def)
  from 1 2 3 show ?thesis
    by (simp add: exposed_init[OF ok] spec_lists_def submodule_def numpy_ops_def)
qed

text \<open>
  Claim C7, amended. The names that the module exposes are: the public names of the
  three wildcard imports (whatever kind of object they stand for), \<open>random\<close>,
  \<open>finfo\<close>, \<open>promote_types\<close>, \<open>result_type\<close>, \<open>max\<close>, \<open>min\<close>, \<open>round\<close>, and besides
  them \<open>newaxis\<close>, \<open>ndarray\<close>, \<open>np_utils\<close>, the three features \<open>absolute_import\<close>,
  \<open>division\<close>, \<open>print_function\<close> of \<open>__future__\<close>, and the names of the submodules
  of the package that the import has loaded, among them \<open>np_random\<close>, \<open>np_utils\<close>,
  \<open>np_array_ops\<close>, \<open>np_arrays\<close>, \<open>np_dtypes\<close> and \<open>np_math_ops\<close>. It exposes no
  other name, apart from the attributes that every module carries from its creation.
\<close>

theorem exposed_names_exact:
  assumes "importable w"
  shows "\<exists>st. numpy_ops_init w = Inr st
    \<and> dom (exposed w) =
        star_names w ''np_array_ops'' \<union> star_names w ''np_dtypes'' \<union> star_names w ''np_math_ops''
        \<union> {''random'', ''finfo'', ''promote_types'', ''result_type'', ''max'', ''min'', ''round''}
        \<union> {''newaxis'', ''ndarray'', ''np_utils'', ''absolute_import'', ''division'',
            ''print_function''}
        \<union> loaded st
    \<and> {''np_random'', ''np_utils'', ''np_array_ops'', ''np_arrays'', ''np_dtypes'', ''np_math_ops''}
        \<subseteq> loaded st
    \<and> (\<forall>x \<in> loaded st. w (submodule x) \<noteq> None)"
proof -
  from importable_init[OF assms] obtain st where ok: "numpy_ops_init w = Inr st" ..
  note r = numpy_ops_init_result[OF ok]
  have "dom (exposed w) =
        star_names w ''np_array_ops'' \<union> star_names w ''np_dtypes'' \<union> star_names w ''np_math_ops''
        \<union> {''random'', ''finfo'', ''promote_types'', ''result_type'', ''max'', ''min'', ''round''}
        \<union> {''newaxis'', ''ndarray'', ''np_utils'', ''absolute_import'', ''division'',
            ''print_function''}
        \<union> loaded st"
    unfolding exposed_init[OF ok] r(5) early_imports_def late_imports_def defined_names_def
    by (rule names_regroup)
  with ok r(6) r(7) show ?thesis by (intro exI[of _ st] conjI)
qed

theorem exposed_names_exact_witness:
  "importable example_world
   \<and> dom (exposed example_world) =
        {''division'', ''np_utils'', ''zeros'', ''amax'', ''amin'', ''around''}
        \<union> {''float32'', ''int64''} \<union> {''np_utils'', ''add'', ''maximum''}
        \<union> {''random'', ''finfo'', ''promote_types'', ''result_type'', ''max'', ''min'', ''round''}
        \<union> {''newaxis'', ''ndarray'', ''np_utils'', ''absolute_import'', ''division'',
            ''print_function''}
        \<union> {''np_export'', ''np_random'', ''np_utils'', ''np_array_ops'', ''np_arrays'',
            ''np_dtypes'', ''np_math_ops''}"
  using exposed_names_exact[OF example_world_importable] example_loaded
proof (elim exE conjE)
  fix st st'
  assume ok: "numpy_ops_init example_world = Inr st"
    and d: "dom (exposed example_world) =
        star_names example_world ''np_array_ops'' \<union> star_names example_world ''np_dtypes''
        \<union> star_names example_world ''np_math_ops''
        \<union> {''random'', ''finfo'', ''promote_types'', ''result_type'', ''max'', ''min'', ''round''}
        \<union> {''newaxis'', ''ndarray'', ''np_utils'', ''absolute_import'', ''division'',
            ''print_function''}
        \<union> loaded st"
    and ok': "numpy_ops_init example_world = Inr st'"
    and l: "loaded st' = {''np_export'', ''np_random'', ''np_utils'', ''np_array_ops'', ''np_arrays'',
                     ''np_dtypes'', ''np_math_ops''}"
  from ok ok' have "st = st'" by simp
  with l have "loaded st = {''np_export'', ''np_random'', ''np_utils'', ''np_array_ops'',
                     ''np_arrays'', ''np_dtypes'', ''np_math_ops''}" by simp
  with d have "dom (exposed example_world) =
        {''division'', ''np_utils'', ''zeros'', ''amax'', ''amin'', ''around''}
        \<union> {''float32'', ''int64''} \<union> {''np_utils'', ''add'', ''maximum''}
        \<union> {''random'', ''finfo'', ''promote_types'', ''result_type'', ''max'', ''min'', ''round''}
        \<union> {''newaxis'', ''ndarray'', ''np_utils'', ''absolute_import'', ''division'',
            ''print_function''}
        \<union> {''np_export'', ''np_random'', ''np_utils'', ''np_array_ops'', ''np_arrays'',
            ''np_dtypes'', ''np_math_ops''}"
    by (simp only: example_star_names)
  with example_world_importable show ?thesis by (rule conjI)
qed

end
